theory Spec2Isabelle
  imports Main "HOL-Library.AList" "HOL-Library.Sublist"
begin

section \<open>JavaScript values and the built-ins the node uses\<close>

text \<open>
  The node is TypeScript, and its types are erased when it runs: a parameter typed
  \<^verbatim>\<open>string | IDataObject\<close> can hold any value. A value is therefore a \<open>jsval\<close>.
  The type of numbers is a parameter \<open>'n\<close> of the value type: \<open>parseHeaders\<close> only
  hands a number to \<^verbatim>\<open>String(value)\<close>, so what it does holds for every number
  representation. The transfer itself counts with status codes and lengths; there numbers
  are integers (\<open>int jsval\<close>).

  An object is the list of its own enumerable entries in the order of
  \<^verbatim>\<open>Object.entries\<close>, and assigning to a new key appends an entry
  (\<open>AList.update\<close>); a string is a list of characters.
\<close>

datatype 'n jsval =
    JUndefined
  | JNull
  | JBool bool
  | JNum 'n
  | JStr string
  | JArr "'n jsval list"
  | JObj "(string \<times> 'n jsval) list"

type_synonym headers = "(string \<times> string) list"

subsection \<open>Strings\<close>

text \<open>\<^verbatim>\<open>s.includes(pat)\<close>: \<open>pat\<close> occurs in \<open>s\<close> as a contiguous run.\<close>

definition str_includes :: "string \<Rightarrow> string \<Rightarrow> bool" where
  "str_includes s pat = sublist pat s"

text \<open>
  \<^verbatim>\<open>s.trim()\<close> strips white space and line terminators at both ends. Of the code points
  ECMAScript lists, those below 256 are TAB, LF, VT, FF, CR, SPACE and NBSP.
\<close>

definition isWhitespace :: "char \<Rightarrow> bool" where
  "isWhitespace c = (of_char c \<in> {9, 10, 11, 12, 13, 32, 160 :: nat})"

definition trim :: "string \<Rightarrow> string" where
  "trim s = rev (dropWhile isWhitespace (rev (dropWhile isWhitespace s)))"

text \<open>\<^verbatim>\<open>xs.join(sep)\<close>.\<close>

fun join :: "string \<Rightarrow> string list \<Rightarrow> string" where
  "join sep [] = []"
| "join sep [x] = x"
| "join sep (x # y # ys) = x @ sep @ join sep (y # ys)"

subsection \<open>Numbers as text\<close>

text \<open>
  A number as the operations meet it: \<^verbatim>\<open>NaN\<close>, an integer, or an infinity
  (\<^verbatim>\<open>parseInt\<close> yields nothing else). JavaScript numbers are doubles. Up to
  \<open>2 ^ 53\<close> in magnitude every integer is a double, \<^verbatim>\<open>parseInt\<close> reads it exactly and
  \<^verbatim>\<open>String\<close> prints its decimal digits; what the runtime does beyond that bound
  (rounding, padding with zeros, an exponent, \<^verbatim>\<open>Infinity\<close>) is a parameter
  \<open>beyond\<close> of the two functions.
\<close>

datatype number = NaN | Finite int | PosInfinity | NegInfinity

definition safe :: "int \<Rightarrow> bool" where
  "safe i = (\<bar>i\<bar> \<le> 9007199254740992)"

text \<open>The decimal digits of an integer, with a minus sign.\<close>

definition digit_char :: "nat \<Rightarrow> char" where
  "digit_char d = ''0123456789'' ! d"

fun String_nat :: "nat \<Rightarrow> string" where
  "String_nat n = (if n < 10 then [digit_char n] else String_nat (n div 10) @ [digit_char (n mod 10)])"

declare String_nat.simps [simp del]

definition String_int :: "int \<Rightarrow> string" where
  "String_int i = (if i < 0 then CHR ''-'' # String_nat (nat (- i)) else String_nat (nat i))"

text \<open>\<^verbatim>\<open>String(n)\<close> and \<^verbatim>\<open>`${n}`\<close> for a number.\<close>

definition String_number :: "(number \<Rightarrow> string) \<Rightarrow> number \<Rightarrow> string" where
  "String_number beyond n =
     (case n of
        NaN \<Rightarrow> ''NaN''
      | PosInfinity \<Rightarrow> ''Infinity''
      | NegInfinity \<Rightarrow> ''-Infinity''
      | Finite i \<Rightarrow> if safe i then String_int i else beyond n)"

text \<open>
  \<^verbatim>\<open>parseInt(s, 10)\<close>: skip leading white space, read an optional sign, then the longest
  run of decimal digits; with no digit the result is \<^verbatim>\<open>NaN\<close>.
\<close>

definition isDigit :: "char \<Rightarrow> bool" where
  "isDigit c = (c \<in> set ''0123456789'')"

definition digit_value :: "char \<Rightarrow> nat" where
  "digit_value c = of_char c - 48"

definition parseInt :: "(string \<Rightarrow> number) \<Rightarrow> string \<Rightarrow> number" where
  "parseInt beyond s =
     (let t = dropWhile isWhitespace s;
          neg = (t \<noteq> [] \<and> hd t = CHR ''-'');
          r = (if t \<noteq> [] \<and> (hd t = CHR ''-'' \<or> hd t = CHR ''+'') then tl t else t);
          ds = takeWhile isDigit r;
          v = (if neg then - 1 else 1) * int (foldl (\<lambda>a c. 10 * a + digit_value c) 0 ds)
      in if ds = [] then NaN
         else if safe v then Finite v
         else beyond s)"

text \<open>\<^verbatim>\<open>!isNaN(n) && n > 0\<close>\<close>

definition positive :: "number \<Rightarrow> bool" where
  "positive n = (case n of Finite i \<Rightarrow> i > 0 | PosInfinity \<Rightarrow> True | _ \<Rightarrow> False)"

subsection \<open>Objects\<close>

text \<open>\<^verbatim>\<open>typeof v\<close>\<close>

definition typeof :: "'n jsval \<Rightarrow> string" where
  "typeof v =
     (case v of
        JUndefined \<Rightarrow> ''undefined''
      | JNull \<Rightarrow> ''object''
      | JBool b \<Rightarrow> ''boolean''
      | JNum n \<Rightarrow> ''number''
      | JStr s \<Rightarrow> ''string''
      | JArr xs \<Rightarrow> ''object''
      | JObj es \<Rightarrow> ''object'')"

text \<open>\<^verbatim>\<open>typeof v === 'object' && v !== null\<close>\<close>

definition isObject :: "'n jsval \<Rightarrow> bool" where
  "isObject v = (typeof v = ''object'' \<and> v \<noteq> JNull)"

text \<open>
  \<^verbatim>\<open>Object.entries(v)\<close> for such a value: an object gives its entries, an array one
  entry per element under its decimal index.
\<close>

definition Object_entries :: "'n jsval \<Rightarrow> (string \<times> 'n jsval) list" where
  "Object_entries v =
     (case v of
        JObj es \<Rightarrow> es
      | JArr xs \<Rightarrow> zip (map String_nat [0..<length xs]) xs
      | _ \<Rightarrow> [])"

definition Object_keys :: "'n jsval \<Rightarrow> string list" where
  "Object_keys v = map fst (Object_entries v)"

text \<open>
  \<^verbatim>\<open>obj[key]\<close> read for truthiness, on an object whose values are strings: a missing key
  is \<^verbatim>\<open>undefined\<close> and the empty string is falsy as well.
\<close>

definition truthy_at :: "headers \<Rightarrow> string \<Rightarrow> bool" where
  "truthy_at h key = (case map_of h key of None \<Rightarrow> False | Some v \<Rightarrow> v \<noteq> [])"

text \<open>
  \<^verbatim>\<open>obj[key] = v\<close> for a string \<open>v\<close>, on an object made by \<^verbatim>\<open>{}\<close>: the key
  \<^verbatim>\<open>__proto__\<close> reaches the setter of \<^verbatim>\<open>Object.prototype\<close>, which ignores a
  string, and nothing is stored; every other key is stored as an own entry.
\<close>

definition assign :: "string \<Rightarrow> string \<Rightarrow> headers \<Rightarrow> headers" where
  "assign key v obj = (if key = ''__proto__'' then obj else AList.update key v obj)"

text \<open>\<^verbatim>\<open>{ ...base, ...obj }\<close>: every entry of \<open>obj\<close> is written over \<open>base\<close>.\<close>

definition spread :: "headers \<Rightarrow> headers \<Rightarrow> headers" where
  "spread base obj = foldl (\<lambda>acc (k, v). AList.update k v acc) base obj"

section \<open>GenericFunctions.ts\<close>

subsection \<open>parseHeaders\<close>

text \<open>
  \<^verbatim>\<open>JSON.parse\<close> is the runtime's; it is a parameter \<open>parse\<close>, which answers \<open>None\<close>
  where \<^verbatim>\<open>JSON.parse\<close> throws a SyntaxError. \<open>str\<close> is \<^verbatim>\<open>String\<close> on numbers.

  \<open>header_entries\<close> is the loop
  \<^verbatim>\<open>for (const [key, value] of Object.entries(parsed))\<close>
  with its body \<^verbatim>\<open>result[key] = String(value)\<close> guarded by the type test.
\<close>

fun header_entries :: "('n \<Rightarrow> string) \<Rightarrow> (string \<times> 'n jsval) list \<Rightarrow> headers \<Rightarrow> headers" where
  "header_entries str [] result = result"
| "header_entries str ((key, val) # es) result =
     header_entries str es
       (case val of
          JStr s \<Rightarrow> assign key s result
        | JNum n \<Rightarrow> assign key (str n) result
        | _ \<Rightarrow> result)"

text \<open>
  The first test \<^verbatim>\<open>!headersParam\<close> returns \<^verbatim>\<open>{}\<close> for \<^verbatim>\<open>undefined\<close>,
  \<^verbatim>\<open>null\<close>, \<^verbatim>\<open>false\<close>, a zero or \<^verbatim>\<open>NaN\<close> number and the empty string. A
  truthy boolean or number is neither a string nor an object and reaches the last
  \<^verbatim>\<open>return {}\<close>: both ways the result is empty.
\<close>

definition parseHeaders ::
  "('n \<Rightarrow> string) \<Rightarrow> (string \<Rightarrow> 'n jsval option) \<Rightarrow> 'n jsval \<Rightarrow> headers" where
  "parseHeaders str parse headersParam =
     (case headersParam of
        JUndefined \<Rightarrow> []
      | JNull \<Rightarrow> []
      | JBool b \<Rightarrow> []
      | JNum n \<Rightarrow> []
      | JStr s \<Rightarrow>
          if s = [] then []
          else (case parse s of
                  None \<Rightarrow> []
                | Some parsed \<Rightarrow>
                    if isObject parsed then header_entries str (Object_entries parsed) []
                    else [])
      | JArr xs \<Rightarrow> header_entries str (Object_entries headersParam) []
      | JObj es \<Rightarrow> header_entries str (Object_entries headersParam) [])"

subsection \<open>extractBearerToken\<close>

text \<open>
  \<^verbatim>\<open>new URL(s)\<close> is the runtime's as well: a parameter that answers \<open>Inl\<close> with the
  TypeError's message where the constructor throws. \<open>searchParams\<close> lists the query's
  pairs in order, and \<^verbatim>\<open>searchParams.get(name)\<close> is the value of the first pair with
  that name.
\<close>

record url =
  protocol :: string
  hostname :: string
  port :: string
  pathname :: string
  search :: string
  searchParams :: "(string \<times> string) list"

record bearer =
  token :: "string option"
  cleanUrl :: string

definition extractBearerToken :: "(string \<Rightarrow> string + url) \<Rightarrow> string \<Rightarrow> bearer" where
  "extractBearerToken new_URL uploadUrl =
     (case new_URL uploadUrl of
        Inl e \<Rightarrow> \<lparr>token = None, cleanUrl = uploadUrl\<rparr>
      | Inr u \<Rightarrow>
          (case map_of (searchParams u) ''bearer'' of
             None \<Rightarrow> \<lparr>token = None, cleanUrl = uploadUrl\<rparr>
           | Some b \<Rightarrow>
               if b \<noteq> [] then \<lparr>token = Some b, cleanUrl = uploadUrl\<rparr>
               else \<lparr>token = None, cleanUrl = uploadUrl\<rparr>))"

section \<open>The transfer operation\<close>

subsection \<open>Parameters, transports and results\<close>

text \<open>
  The values \<^verbatim>\<open>getNodeParameter\<close> hands to \<^verbatim>\<open>execute\<close>. A URL that is missing is
  \<open>None\<close>; \<open>contentLength\<close> is typed \<^verbatim>\<open>string | number\<close> and defaults to the empty
  string; \<open>httpMethod\<close> is the parameter \<^verbatim>\<open>method\<close>.
\<close>

datatype str_or_num = Str string | Num int

record params =
  downloadUrl :: "string option"
  uploadUrl :: "string option"
  contentLength :: str_or_num
  httpMethod :: string
  downloadHeadersParam :: "int jsval"
  uploadHeadersParam :: "int jsval"
  throwOnError :: bool

text \<open>
  A body as a transport can deliver it: a \<^verbatim>\<open>Buffer\<close>, a readable stream (an object
  with a \<^verbatim>\<open>pipe\<close> function), or any other value. The bytes stand for what the buffer
  holds or the stream will deliver.
\<close>

datatype body = Buffer string | Stream string | Plain "int jsval"

text \<open>The options of the native \<^verbatim>\<open>http.request\<close> / \<^verbatim>\<open>https.request\<close> call.\<close>

record native_options =
  client :: string
  opt_hostname :: string
  opt_port :: "int jsval"
  opt_path :: string
  opt_method :: string
  opt_headers :: headers

text \<open>The \<^verbatim>\<open>http.IncomingMessage\<close> the native client hands to the callback.\<close>

record incoming =
  res_statusCode :: "int option"
  res_headers :: headers
  res_stream :: string

text \<open>
  What the native client does with a request: the call itself throws (inside the
  promise's executor, so the promise rejects with that error), the request emits
  \<^verbatim>\<open>error\<close>, or the callback receives the response.
\<close>

datatype native_reply = Threw string | ErrorEvent string | Responded incoming

text \<open>The options of \<^verbatim>\<open>this.helpers.request\<close> and \<^verbatim>\<open>this.helpers.httpRequest\<close>.\<close>

record request_options =
  req_method :: string
  req_url :: string
  req_headers :: headers
  req_body :: "string option"

text \<open>
  What reaches a helper from the network: no response (with the message of the error), or
  a response with its status, headers and body.
\<close>

datatype 'b answer = NoResponse string | Response int headers 'b

text \<open>
  The full response of \<^verbatim>\<open>this.helpers.request\<close> with
  \<^verbatim>\<open>resolveWithFullResponse: true\<close>: for the download of the helper-based operation
  (\<^verbatim>\<open>encoding: null\<close>) and for the upload of the native one.
\<close>

record download_response =
  dl_statusCode :: "int option"
  dl_headers :: "headers option"
  dl_body :: body

record upload_response =
  up_statusCode :: "int option"
  up_body :: "int jsval"

text \<open>
  An awaited call resolves with a value or rejects; of a rejection the code reads one
  thing, \<^verbatim>\<open>error instanceof Error ? error.message : String(error)\<close>, which is the
  string kept here.
\<close>

datatype 'a reply = Rejected string | Resolved 'a

text \<open>
  The runtime and the network, as the operation sees them. \<open>parseInt_beyond\<close> and
  \<open>String_beyond\<close> are the runtime's numbers beyond \<open>2 ^ 53\<close>. \<open>status_error\<close> is the
  message of the error a helper raises for a response outside 200..299. The three
  \<open>coerced\<close> fields are the runtime's \<^verbatim>\<open>v < n\<close>, \<^verbatim>\<open>v >= n\<close> and
  \<^verbatim>\<open>`${v}`\<close> for a value \<open>v\<close> that is not a number.
\<close>

record env =
  JSON_parse :: "string \<Rightarrow> int jsval option"
  JSON_stringify :: "int jsval \<Rightarrow> string"
  new_URL :: "string \<Rightarrow> string + url"
  parseInt_beyond :: "string \<Rightarrow> number"
  String_beyond :: "number \<Rightarrow> string"
  coerced_less :: "int jsval \<Rightarrow> int \<Rightarrow> bool"
  coerced_at_least :: "int jsval \<Rightarrow> int \<Rightarrow> bool"
  coerced_String :: "int jsval \<Rightarrow> string"
  native_request :: "native_options \<Rightarrow> native_reply"
  download_answer :: "request_options \<Rightarrow> body answer"
  upload_answer :: "request_options \<Rightarrow> int jsval answer"
  status_error :: "request_options \<Rightarrow> string"

text \<open>
  The helpers are n8n's. The operations call them without \<^verbatim>\<open>simple: false\<close> and
  without \<^verbatim>\<open>ignoreHttpStatusErrors\<close>, so a helper rejects when the response's status
  is outside 200..299, as it does when there is no response. \<^verbatim>\<open>helpers.request\<close> with
  \<^verbatim>\<open>resolveWithFullResponse: true\<close> resolves with the full response;
  \<^verbatim>\<open>helpers.httpRequest\<close> resolves with the body.
\<close>

definition request_download :: "env \<Rightarrow> request_options \<Rightarrow> download_response reply" where
  "request_download e options =
     (case download_answer e options of
        NoResponse m \<Rightarrow> Rejected m
      | Response code hs b \<Rightarrow>
          if code < 200 \<or> code \<ge> 300 then Rejected (status_error e options)
          else Resolved \<lparr>dl_statusCode = Some code, dl_headers = Some hs, dl_body = b\<rparr>)"

definition request_upload :: "env \<Rightarrow> request_options \<Rightarrow> upload_response reply" where
  "request_upload e options =
     (case upload_answer e options of
        NoResponse m \<Rightarrow> Rejected m
      | Response code hs b \<Rightarrow>
          if code < 200 \<or> code \<ge> 300 then Rejected (status_error e options)
          else Resolved \<lparr>up_statusCode = Some code, up_body = b\<rparr>)"

definition httpRequest :: "env \<Rightarrow> request_options \<Rightarrow> int jsval reply" where
  "httpRequest e options =
     (case upload_answer e options of
        NoResponse m \<Rightarrow> Rejected m
      | Response code hs b \<Rightarrow>
          if code < 200 \<or> code \<ge> 300 then Rejected (status_error e options)
          else Resolved b)"

text \<open>Every request the operation issues is logged, in order.\<close>

datatype call =
    NativeRequest native_options
  | HelpersRequest request_options
  | HelpersHttpRequest request_options

record node_execution_data =
  json :: "(string \<times> int jsval) list"
  pairedItem :: nat

datatype outcome = Throw string | Return node_execution_data

type_synonym run = "outcome \<times> call list"

subsection \<open>What both operations share\<close>

text \<open>\<^verbatim>\<open>String(i)\<close> and \<^verbatim>\<open>`${i}`\<close> for an integer, in the runtime \<open>e\<close>.\<close>

definition String_of :: "env \<Rightarrow> int \<Rightarrow> string" where
  "String_of e i = String_number (String_beyond e) (Finite i)"

text \<open>Truthiness of a \<^verbatim>\<open>string | number\<close>.\<close>

definition truthy :: "str_or_num \<Rightarrow> bool" where
  "truthy v = (case v of Str s \<Rightarrow> s \<noteq> [] | Num n \<Rightarrow> n \<noteq> 0)"

text \<open>
  \<^verbatim>\<open>typeof v === 'number' ? v : parseInt(v, 10)\<close>, then the guard
  \<^verbatim>\<open>!isNaN(length) && length > 0\<close> and the assignment of the header.
\<close>

definition to_length :: "env \<Rightarrow> str_or_num \<Rightarrow> number" where
  "to_length e v = (case v of Num n \<Rightarrow> Finite n | Str s \<Rightarrow> parseInt (parseInt_beyond e) s)"

definition set_content_length :: "env \<Rightarrow> str_or_num \<Rightarrow> headers \<Rightarrow> headers" where
  "set_content_length e v h =
     (if positive (to_length e v)
      then AList.update ''Content-Length'' (String_number (String_beyond e) (to_length e v)) h
      else h)"

definition finalDownloadHeaders :: "env \<Rightarrow> params \<Rightarrow> headers" where
  "finalDownloadHeaders e p =
     spread [(''Accept'', ''*/*'')]
       (parseHeaders (String_of e) (JSON_parse e) (downloadHeadersParam p))"

text \<open>
  The upload headers as they stand when the \<^verbatim>\<open>try\<close> block is entered: the default
  content type under the user's headers, then the bearer token, then the explicit
  content length.
\<close>

definition finalUploadHeaders :: "env \<Rightarrow> params \<Rightarrow> string \<Rightarrow> headers" where
  "finalUploadHeaders e p uUrl =
     (let h0 = spread [(''Content-Type'', ''application/octet-stream'')]
                 (parseHeaders (String_of e) (JSON_parse e) (uploadHeadersParam p));
          h1 = (case token (extractBearerToken (new_URL e) uUrl) of
                  None \<Rightarrow> h0
                | Some t \<Rightarrow>
                    if t \<noteq> [] \<and> \<not> truthy_at h0 ''Authorization'' \<and> \<not> truthy_at h0 ''authorization''
                    then AList.update ''Authorization'' (''Bearer '' @ t) h0
                    else h0)
      in if truthy (contentLength p) then set_content_length e (contentLength p) h1 else h1)"

text \<open>
  Inside the \<^verbatim>\<open>try\<close> block, once the download has answered:
  \<^verbatim>\<open>contentLength || responseHeaders['content-length']\<close>, used only when the upload
  headers hold no truthy \<^verbatim>\<open>Content-Length\<close> yet.
\<close>

definition detect_content_length :: "env \<Rightarrow> str_or_num \<Rightarrow> headers \<Rightarrow> headers \<Rightarrow> headers" where
  "detect_content_length e cl responseHeaders h =
     (let actualContentLength =
            (if truthy cl then Some cl
             else (case map_of responseHeaders ''content-length'' of
                     None \<Rightarrow> None
                   | Some v \<Rightarrow> Some (Str v)))
      in case actualContentLength of
           None \<Rightarrow> h
         | Some a \<Rightarrow>
             if truthy a \<and> \<not> truthy_at h ''Content-Length'' then set_content_length e a h else h)"

text \<open>The headers the upload request is sent with.\<close>

definition effectiveUploadHeaders :: "env \<Rightarrow> params \<Rightarrow> string \<Rightarrow> headers \<Rightarrow> headers" where
  "effectiveUploadHeaders e p uUrl responseHeaders =
     detect_content_length e (contentLength p) responseHeaders (finalUploadHeaders e p uUrl)"

text \<open>\<^verbatim>\<open>code < 200 || code >= 300\<close>\<close>

definition not_2xx :: "int \<Rightarrow> bool" where
  "not_2xx code = (code < 200 \<or> code \<ge> 300)"

text \<open>\<^verbatim>\<open>code || d\<close> on an optional number.\<close>

definition or_default :: "int option \<Rightarrow> int \<Rightarrow> int" where
  "or_default code d = (case code of None \<Rightarrow> d | Some c \<Rightarrow> if c = 0 then d else c)"

text \<open>The two failure messages; \<open>code\<close> is the status as the template prints it.\<close>

definition download_failed :: "string \<Rightarrow> string \<Rightarrow> string" where
  "download_failed code dUrl =
     ''Download failed with HTTP '' @ code @ '' from '' @ dUrl @
     ''. Please verify the download URL is accessible and returns a successful response.''"

definition upload_failed :: "string \<Rightarrow> string \<Rightarrow> string \<Rightarrow> string" where
  "upload_failed code uUrl m =
     ''Upload failed with HTTP '' @ code @ '' to '' @ uUrl @ ''. '' @
     ''Please verify the upload URL is correct, authentication is valid, and the endpoint accepts '' @
     m @ '' requests.''"

text \<open>The \<^verbatim>\<open>catch\<close> block, the same in both operations.\<close>

definition enhancedMessage :: "string \<Rightarrow> string \<Rightarrow> string \<Rightarrow> string" where
  "enhancedMessage dUrl uUrl errorMessage =
     (if str_includes errorMessage ''Download URL'' \<or> str_includes errorMessage ''Upload URL''
      then errorMessage
      else ''File transfer failed: '' @ errorMessage @ ''. Download URL: '' @ dUrl @
           '', Upload URL: '' @ uUrl)"

definition catch_block :: "params \<Rightarrow> nat \<Rightarrow> string \<Rightarrow> string \<Rightarrow> string \<Rightarrow> outcome" where
  "catch_block p itemIndex dUrl uUrl errorMessage =
     (if throwOnError p then Throw (enhancedMessage dUrl uUrl errorMessage)
      else Return \<lparr>json = [(''error'', JStr (enhancedMessage dUrl uUrl errorMessage)),
                            (''success'', JBool False),
                            (''downloadUrl'', JStr dUrl),
                            (''uploadUrl'', JStr uUrl)],
                    pairedItem = itemIndex\<rparr>)"

text \<open>The record of a transfer that went through, before the upload's response is added.\<close>

definition success_result :: "int jsval \<Rightarrow> int jsval \<Rightarrow> (string \<times> int jsval) list" where
  "success_result downloadStatus uploadStatus =
     [(''success'', JBool True),
      (''downloadStatus'', downloadStatus),
      (''uploadStatus'', uploadStatus)]"

text \<open>The record the status check of the upload returns without \<open>throwOnError\<close>.\<close>

definition upload_soft_failure ::
  "string \<Rightarrow> int jsval \<Rightarrow> int jsval \<Rightarrow> string \<Rightarrow> string \<Rightarrow> (string \<times> int jsval) list" where
  "upload_soft_failure errorMessage uploadStatus downloadStatus uUrl dUrl =
     [(''error'', JStr errorMessage),
      (''uploadStatus'', uploadStatus),
      (''downloadStatus'', downloadStatus),
      (''uploadUrl'', JStr uUrl),
      (''downloadUrl'', JStr dUrl)]"

subsection \<open>The operation on the native HTTP client (transferFile.operation)\<close>

text \<open>
  The \<^verbatim>\<open>try\<close> block. The download goes through \<^verbatim>\<open>http.request\<close> or
  \<^verbatim>\<open>https.request\<close>, wrapped in a promise: an \<^verbatim>\<open>error\<close> event and a status
  outside 200..299 reject it, and the rejection is thrown by \<^verbatim>\<open>await\<close>. The upload goes
  through \<^verbatim>\<open>this.helpers.request\<close> with the response stream as its body.
\<close>

definition after_upload ::
  "env \<Rightarrow> params \<Rightarrow> nat \<Rightarrow> string \<Rightarrow> string \<Rightarrow> int \<Rightarrow> upload_response \<Rightarrow> outcome" where
  "after_upload e p itemIndex dUrl uUrl downloadStatusCode uploadResponse =
     (let failed = (case up_statusCode uploadResponse of
                      None \<Rightarrow> None
                    | Some c \<Rightarrow> if not_2xx c then Some c else None)
      in case failed of
           Some c \<Rightarrow>
             if throwOnError p then Throw (upload_failed (String_of e c) uUrl (httpMethod p))
             else Return \<lparr>json = upload_soft_failure
                                    (upload_failed (String_of e c) uUrl (httpMethod p))
                                    (JNum c) (JNum downloadStatusCode) uUrl dUrl,
                           pairedItem = itemIndex\<rparr>
         | None \<Rightarrow>
             (let result = success_result (JNum (or_default (Some downloadStatusCode) 200))
                             (JNum (or_default (up_statusCode uploadResponse) 200))
              in Return \<lparr>json =
                    (case up_body uploadResponse of
                       JUndefined \<Rightarrow> result
                     | JStr s \<Rightarrow>
                         (case JSON_parse e s of
                            Some v \<Rightarrow> AList.update ''uploadResponse'' v result
                          | None \<Rightarrow> AList.update ''uploadResponse'' (JStr s) result)
                     | b \<Rightarrow> AList.update ''uploadResponse'' b result),
                  pairedItem = itemIndex\<rparr>))"

definition download_options :: "url \<Rightarrow> headers \<Rightarrow> native_options" where
  "download_options u h =
     \<lparr>client = (if protocol u = ''https:'' then ''https'' else ''http''),
      opt_hostname = hostname u,
      opt_port = (if port u \<noteq> [] then JStr (port u)
                  else JNum (if protocol u = ''https:'' then 443 else 80)),
      opt_path = pathname u @ search u,
      opt_method = ''GET'',
      opt_headers = h\<rparr>"

definition try_block :: "env \<Rightarrow> params \<Rightarrow> nat \<Rightarrow> string \<Rightarrow> string \<Rightarrow> run" where
  "try_block e p itemIndex dUrl uUrl =
     (case new_URL e dUrl of
        Inl typeError \<Rightarrow> (Throw typeError, [])
      | Inr downloadUrlObj \<Rightarrow>
          (let downloadOptions = download_options downloadUrlObj (finalDownloadHeaders e p)
           in case native_request e downloadOptions of
                Threw m \<Rightarrow> (Throw m, [NativeRequest downloadOptions])
              | ErrorEvent m \<Rightarrow>
                  (Throw (''Download request failed: '' @ m), [NativeRequest downloadOptions])
              | Responded res \<Rightarrow>
                  (let statusCode = or_default (res_statusCode res) 0
                   in if not_2xx statusCode
                      then (Throw (download_failed (String_of e statusCode) dUrl),
                            [NativeRequest downloadOptions])
                      else
                        (let uploadOptions =
                               \<lparr>req_method = httpMethod p,
                                req_url = uUrl,
                                req_headers = effectiveUploadHeaders e p uUrl (res_headers res),
                                req_body = Some (res_stream res)\<rparr>
                         in case request_upload e uploadOptions of
                              Rejected m \<Rightarrow>
                                (Throw m, [NativeRequest downloadOptions, HelpersRequest uploadOptions])
                            | Resolved uploadResponse \<Rightarrow>
                                (after_upload e p itemIndex dUrl uUrl statusCode uploadResponse,
                                 [NativeRequest downloadOptions, HelpersRequest uploadOptions])))))"

text \<open>
  Of what the \<^verbatim>\<open>try\<close> block throws, the \<^verbatim>\<open>catch\<close> block makes a failure
  according to \<open>throwOnError\<close>; what it returns is returned as it is. The two validation
  throws stand in front of the \<^verbatim>\<open>try\<close> block and are not caught.
\<close>

definition try_catch :: "params \<Rightarrow> nat \<Rightarrow> string \<Rightarrow> string \<Rightarrow> run \<Rightarrow> run" where
  "try_catch p itemIndex dUrl uUrl r =
     (case fst r of
        Return d \<Rightarrow> r
      | Throw errorMessage \<Rightarrow> (catch_block p itemIndex dUrl uUrl errorMessage, snd r))"

definition execute :: "env \<Rightarrow> params \<Rightarrow> nat \<Rightarrow> run" where
  "execute e p itemIndex =
     (case downloadUrl p of
        None \<Rightarrow> (Throw ''Download URL is required and cannot be empty'', [])
      | Some dUrl \<Rightarrow>
          if dUrl = [] \<or> trim dUrl = []
          then (Throw ''Download URL is required and cannot be empty'', [])
          else (case uploadUrl p of
                  None \<Rightarrow> (Throw ''Upload URL is required and cannot be empty'', [])
                | Some uUrl \<Rightarrow>
                    if uUrl = [] \<or> trim uUrl = []
                    then (Throw ''Upload URL is required and cannot be empty'', [])
                    else try_catch p itemIndex dUrl uUrl (try_block e p itemIndex dUrl uUrl)))"

subsection \<open>The operation on the request helper\<close>

text \<open>
  The second implementation downloads with \<^verbatim>\<open>this.helpers.request\<close> and uploads with
  \<^verbatim>\<open>this.helpers.httpRequest\<close>. It inspects the body it was given before it uploads.
\<close>

text \<open>\<^verbatim>\<open>v?.constructor?.name || 'unknown'\<close> for a value that is no object.\<close>

definition constructor_name :: "'n jsval \<Rightarrow> string" where
  "constructor_name v =
     (case v of
        JUndefined \<Rightarrow> ''unknown''
      | JNull \<Rightarrow> ''unknown''
      | JBool b \<Rightarrow> ''Boolean''
      | JNum n \<Rightarrow> ''Number''
      | JStr s \<Rightarrow> ''String''
      | JArr xs \<Rightarrow> ''Array''
      | JObj es \<Rightarrow> ''Object'')"

definition not_streamable_object :: "env \<Rightarrow> string \<Rightarrow> int jsval \<Rightarrow> string" where
  "not_streamable_object e dUrl downloadStream =
     (let bodyType = typeof downloadStream;
          bodyKeys = take 5 (Object_keys downloadStream);
          bodyPreview = take 200 (JSON_stringify e downloadStream)
      in ''Download response from '' @ dUrl @ '' is not a streamable format. '' @
         ''The response body type is: '' @ bodyType @ ''. '' @
         (if length bodyKeys > 0 then ''Response body keys: '' @ join '', '' bodyKeys @ ''. '' else []) @
         ''Response preview: '' @ bodyPreview @ (if length bodyPreview \<ge> 200 then ''...'' else []) @ ''. '' @
         ''This usually means the server returned JSON/text instead of binary data. '' @
         ''Please ensure the download URL returns a binary stream. '' @
         ''You may need to add headers like 'Accept: */*' to prevent automatic parsing.'')"

definition not_streamable_value :: "string \<Rightarrow> int jsval \<Rightarrow> string" where
  "not_streamable_value dUrl downloadStream =
     ''Download response from '' @ dUrl @ '' is not a streamable format. '' @
     ''The response body type is: '' @ typeof downloadStream @ '', constructor: '' @
     constructor_name downloadStream @ ''. '' @
     ''Please ensure the download URL returns a binary stream.''"

text \<open>
  The body checks: a buffer is wrapped by \<^verbatim>\<open>Readable.from\<close>, a stream is used as it
  is, every other value throws. \<open>Inr\<close> is the stream to upload.
\<close>

definition to_stream :: "env \<Rightarrow> string \<Rightarrow> body \<Rightarrow> string + string" where
  "to_stream e dUrl b =
     (case b of
        Buffer bytes \<Rightarrow> Inr bytes
      | Stream bytes \<Rightarrow> Inr bytes
      | Plain v \<Rightarrow>
          if isObject v then Inl (not_streamable_object e dUrl v)
          else Inl (not_streamable_value dUrl v))"

text \<open>
  \<^verbatim>\<open>'statusCode' in uploadResponse ? uploadResponse.statusCode : undefined\<close> behind the
  object test: the property as it is, whatever its kind. An array has no such property.
\<close>

definition statusCode_in :: "int jsval \<Rightarrow> int jsval" where
  "statusCode_in v =
     (case v of
        JObj es \<Rightarrow> (case map_of es ''statusCode'' of Some x \<Rightarrow> x | None \<Rightarrow> JUndefined)
      | _ \<Rightarrow> JUndefined)"

text \<open>
  The comparisons and the template of the status check, on that value. A number is
  compared and printed as it is; for every other kind the runtime coerces.
\<close>

definition js_less :: "env \<Rightarrow> int jsval \<Rightarrow> int \<Rightarrow> bool" where
  "js_less e v n = (case v of JNum i \<Rightarrow> i < n | _ \<Rightarrow> coerced_less e v n)"

definition js_at_least :: "env \<Rightarrow> int jsval \<Rightarrow> int \<Rightarrow> bool" where
  "js_at_least e v n = (case v of JNum i \<Rightarrow> i \<ge> n | _ \<Rightarrow> coerced_at_least e v n)"

definition js_template :: "env \<Rightarrow> int jsval \<Rightarrow> string" where
  "js_template e v = (case v of JNum i \<Rightarrow> String_of e i | JStr s \<Rightarrow> s | _ \<Rightarrow> coerced_String e v)"

text \<open>\<^verbatim>\<open>v || d\<close>\<close>

definition js_or :: "int jsval \<Rightarrow> int jsval \<Rightarrow> int jsval" where
  "js_or v d =
     (case v of
        JUndefined \<Rightarrow> d
      | JNull \<Rightarrow> d
      | JBool b \<Rightarrow> if b then v else d
      | JNum i \<Rightarrow> if i = 0 then d else v
      | JStr s \<Rightarrow> if s = [] then d else v
      | _ \<Rightarrow> v)"

definition after_httpRequest ::
  "env \<Rightarrow> params \<Rightarrow> nat \<Rightarrow> string \<Rightarrow> string \<Rightarrow> int option \<Rightarrow> int jsval \<Rightarrow> outcome" where
  "after_httpRequest e p itemIndex dUrl uUrl downloadStatusCode uploadResponse =
     (let uploadStatusCode = statusCode_in uploadResponse;
          downloadStatus = (case downloadStatusCode of None \<Rightarrow> JUndefined | Some d \<Rightarrow> JNum d)
      in if uploadStatusCode \<noteq> JUndefined
            \<and> (js_less e uploadStatusCode 200 \<or> js_at_least e uploadStatusCode 300)
         then
           if throwOnError p
           then Throw (upload_failed (js_template e uploadStatusCode) uUrl (httpMethod p))
           else Return \<lparr>json = upload_soft_failure
                                  (upload_failed (js_template e uploadStatusCode) uUrl (httpMethod p))
                                  uploadStatusCode downloadStatus uUrl dUrl,
                         pairedItem = itemIndex\<rparr>
         else
           Return \<lparr>json = AList.update ''uploadResponse'' uploadResponse
                             (success_result (js_or downloadStatus (JNum 200))
                                (js_or uploadStatusCode (JNum 200))),
                   pairedItem = itemIndex\<rparr>)"

definition try_block_helpers :: "env \<Rightarrow> params \<Rightarrow> nat \<Rightarrow> string \<Rightarrow> string \<Rightarrow> run" where
  "try_block_helpers e p itemIndex dUrl uUrl =
     (let downloadOptions =
            \<lparr>req_method = ''GET'', req_url = dUrl, req_headers = finalDownloadHeaders e p,
             req_body = None\<rparr>
      in case request_download e downloadOptions of
           Rejected m \<Rightarrow> (Throw m, [HelpersRequest downloadOptions])
         | Resolved downloadResponse \<Rightarrow>
             (let failed = (case dl_statusCode downloadResponse of
                              None \<Rightarrow> None
                            | Some c \<Rightarrow> if not_2xx c then Some c else None)
              in case failed of
                   Some c \<Rightarrow>
                     if throwOnError p
                     then (Throw (download_failed (String_of e c) dUrl),
                           [HelpersRequest downloadOptions])
                     else (Return \<lparr>json = [(''error'', JStr (download_failed (String_of e c) dUrl)),
                                            (''downloadStatus'', JNum c),
                                            (''downloadUrl'', JStr dUrl)],
                                    pairedItem = itemIndex\<rparr>,
                           [HelpersRequest downloadOptions])
                 | None \<Rightarrow>
                     (let responseHeaders = (case dl_headers downloadResponse of
                                               None \<Rightarrow> []
                                             | Some h \<Rightarrow> h)
                      in case to_stream e dUrl (dl_body downloadResponse) of
                           Inl m \<Rightarrow> (Throw m, [HelpersRequest downloadOptions])
                         | Inr downloadStream \<Rightarrow>
                             (let uploadOptions =
                                    \<lparr>req_method = httpMethod p,
                                     req_url = uUrl,
                                     req_headers = effectiveUploadHeaders e p uUrl responseHeaders,
                                     req_body = Some downloadStream\<rparr>
                              in case httpRequest e uploadOptions of
                                   Rejected m \<Rightarrow>
                                     (Throw m, [HelpersRequest downloadOptions,
                                                HelpersHttpRequest uploadOptions])
                                 | Resolved uploadResponse \<Rightarrow>
                                     (after_httpRequest e p itemIndex dUrl uUrl
                                        (dl_statusCode downloadResponse) uploadResponse,
                                      [HelpersRequest downloadOptions,
                                       HelpersHttpRequest uploadOptions])))))"

definition execute_helpers :: "env \<Rightarrow> params \<Rightarrow> nat \<Rightarrow> run" where
  "execute_helpers e p itemIndex =
     (case downloadUrl p of
        None \<Rightarrow> (Throw ''Download URL is required and cannot be empty'', [])
      | Some dUrl \<Rightarrow>
          if dUrl = [] \<or> trim dUrl = []
          then (Throw ''Download URL is required and cannot be empty'', [])
          else (case uploadUrl p of
                  None \<Rightarrow> (Throw ''Upload URL is required and cannot be empty'', [])
                | Some uUrl \<Rightarrow>
                    if uUrl = [] \<or> trim uUrl = []
                    then (Throw ''Upload URL is required and cannot be empty'', [])
                    else try_catch p itemIndex dUrl uUrl
                           (try_block_helpers e p itemIndex dUrl uUrl)))"

section \<open>The words of the specification\<close>

text \<open>
  The specification speaks of the entries "whose values are strings or numbers,
  stringified". \<open>kept_entries\<close> says that in its own words, without the loop.
\<close>

definition stringOrNumber :: "'n jsval \<Rightarrow> bool" where
  "stringOrNumber v = (typeof v = ''string'' \<or> typeof v = ''number'')"

definition header_entry :: "('n \<Rightarrow> string) \<Rightarrow> string \<times> 'n jsval \<Rightarrow> (string \<times> string) option" where
  "header_entry str kv =
     (case snd kv of
        JStr s \<Rightarrow> Some (fst kv, s)
      | JNum n \<Rightarrow> Some (fst kv, str n)
      | _ \<Rightarrow> None)"

definition kept_entries :: "('n \<Rightarrow> string) \<Rightarrow> (string \<times> 'n jsval) list \<Rightarrow> headers" where
  "kept_entries str es = List.map_filter (header_entry str) es"

text \<open>
  Of these, the entries an object made by \<^verbatim>\<open>{}\<close> stores: all but one under the key
  \<^verbatim>\<open>__proto__\<close>.
\<close>

definition stored_entries :: "('n \<Rightarrow> string) \<Rightarrow> (string \<times> 'n jsval) list \<Rightarrow> headers" where
  "stored_entries str es = kept_entries str (filter (\<lambda>kv. fst kv \<noteq> ''__proto__'') es)"

text \<open>
  The \<^verbatim>\<open>Content-Length\<close> of the upload, case by case: an explicit \<open>contentLength\<close>
  that is a positive number comes first; then a non-empty value of the user's upload
  headers; then, when no \<open>contentLength\<close> is given, a positive length read from the
  download's \<^verbatim>\<open>content-length\<close>; else whatever the user's headers hold.
\<close>

definition expected_content_length :: "env \<Rightarrow> params \<Rightarrow> headers \<Rightarrow> string option" where
  "expected_content_length e p responseHeaders =
     (let explicit = to_length e (contentLength p);
          user = map_of (parseHeaders (String_of e) (JSON_parse e) (uploadHeadersParam p))
                   ''Content-Length''
      in if truthy (contentLength p) \<and> positive explicit
         then Some (String_number (String_beyond e) explicit)
         else if (case user of None \<Rightarrow> False | Some v \<Rightarrow> v \<noteq> []) then user
         else if truthy (contentLength p) then user
         else (case map_of responseHeaders ''content-length'' of
                 None \<Rightarrow> user
               | Some s \<Rightarrow>
                   if s \<noteq> [] \<and> positive (parseInt (parseInt_beyond e) s)
                   then Some (String_number (String_beyond e) (parseInt (parseInt_beyond e) s))
                   else user))"

text \<open>A URL that is absent, empty, or made of white space only.\<close>

definition blank :: "string option \<Rightarrow> bool" where
  "blank u = (case u of None \<Rightarrow> True | Some s \<Rightarrow> list_all isWhitespace s)"

section \<open>A sample runtime\<close>

text \<open>
  What the runtime's \<^verbatim>\<open>JSON.parse\<close>, \<^verbatim>\<open>JSON.stringify\<close> and \<^verbatim>\<open>new URL\<close>
  answer on the inputs of the examples below. On every other input \<open>sample_parse\<close> and
  \<open>sample_URL\<close> answer as for malformed text; \<open>sample_stringify\<close> is only asked for the
  one body of the examples. No example has a number beyond \<open>2 ^ 53\<close> or a status that
  is not a number, so the fields for these are never asked. The transports answer every
  request alike.
\<close>

definition sample_parse :: "string \<Rightarrow> int jsval option" where
  "sample_parse s =
     (if s = ''{}'' then Some (JObj [])
      else if s = ''[]'' then Some (JArr [])
      else if s = ''[1, \"a\"]'' then Some (JArr [JNum 1, JStr ''a''])
      else if s = ''{\"X-Id\": 7, \"Accept\": \"text/plain\", \"Bad\": true}''
        then Some (JObj [(''X-Id'', JNum 7), (''Accept'', JStr ''text/plain''), (''Bad'', JBool True)])
      else if s = ''{\"__proto__\": \"x\", \"X-Id\": 7}''
        then Some (JObj [(''__proto__'', JStr ''x''), (''X-Id'', JNum 7)])
      else None)"

definition sample_stringify :: "int jsval \<Rightarrow> string" where
  "sample_stringify v =
     (if v = JObj [(''error'', JStr ''not found'')] then ''{\"error\":\"not found\"}''
      else ''null'')"

definition sample_URL :: "string \<Rightarrow> string + url" where
  "sample_URL s =
     (if s = ''http://src.example.com/file.bin''
      then Inr \<lparr>protocol = ''http:'', hostname = ''src.example.com'', port = [],
                pathname = ''/file.bin'', search = [], searchParams = []\<rparr>
      else if s = ''https://up.example.com/upload''
      then Inr \<lparr>protocol = ''https:'', hostname = ''up.example.com'', port = [],
                pathname = ''/upload'', search = [], searchParams = []\<rparr>
      else if s = ''https://up.example.com/upload?bearer=tok''
      then Inr \<lparr>protocol = ''https:'', hostname = ''up.example.com'', port = [],
                pathname = ''/upload'', search = ''?bearer=tok'',
                searchParams = [(''bearer'', ''tok'')]\<rparr>
      else Inl ''Invalid URL'')"

definition sample_env :: "native_reply \<Rightarrow> int jsval answer \<Rightarrow> body answer \<Rightarrow> env" where
  "sample_env n u d =
     \<lparr>JSON_parse = sample_parse, JSON_stringify = sample_stringify, new_URL = sample_URL,
      parseInt_beyond = (\<lambda>_. PosInfinity), String_beyond = (\<lambda>_. ''Infinity''),
      coerced_less = (\<lambda>_ _. False), coerced_at_least = (\<lambda>_ _. False),
      coerced_String = (\<lambda>_. ''[object Object]''),
      native_request = (\<lambda>_. n), download_answer = (\<lambda>_. d), upload_answer = (\<lambda>_. u),
      status_error = (\<lambda>_. ''The request failed with an error status'')\<rparr>"

text \<open>A download that answers with a status and 500 bytes, an upload that answers with a status.\<close>

definition answers :: "int \<Rightarrow> native_reply" where
  "answers code =
     Responded \<lparr>res_statusCode = Some code, res_headers = [(''content-length'', ''500'')],
                res_stream = ''data''\<rparr>"

definition accepts :: "int \<Rightarrow> int jsval answer" where
  "accepts code = Response code [] (JStr ''{}'')"

text \<open>The native operation's world: the helper does not download.\<close>

definition native_env :: "native_reply \<Rightarrow> int jsval answer \<Rightarrow> env" where
  "native_env n u = sample_env n u (NoResponse ''unused'')"

text \<open>The helper-based operation's world: the native client is not used.\<close>

definition helpers_env :: "body answer \<Rightarrow> int jsval answer \<Rightarrow> env" where
  "helpers_env d u = sample_env (Threw ''unused'') u d"

text \<open>A download that answers 200 with a body the transport has parsed already.\<close>

definition parsed_body :: "body answer" where
  "parsed_body = Response 200 [] (Plain (JObj [(''error'', JStr ''not found'')]))"

definition sample_params :: params where
  "sample_params =
     \<lparr>downloadUrl = Some ''http://src.example.com/file.bin'',
      uploadUrl = Some ''https://up.example.com/upload'',
      contentLength = Str [],
      httpMethod = ''POST'',
      downloadHeadersParam = JStr ''{}'',
      uploadHeadersParam = JStr ''{}'',
      throwOnError = True\<rparr>"

section \<open>Header normalisation\<close>

lemma isObject_simps:
  "isObject (JArr xs)" "isObject (JObj es)" "\<not> isObject JUndefined" "\<not> isObject JNull"
  "\<not> isObject (JBool b)" "\<not> isObject (JNum n)" "\<not> isObject (JStr s)"
  by (simp_all add: isObject_def typeof_def)

lemma update_fresh: "k \<notin> fst ` set al \<Longrightarrow> AList.update k v al = al @ [(k, v)]"
  by (induction al) auto

lemma kept_entries_Nil: "kept_entries str [] = []"
  by (simp add: kept_entries_def map_filter_def)

lemma kept_entries_Cons:
  "kept_entries str ((k, v) # es) =
     (case v of JStr s \<Rightarrow> (k, s) # kept_entries str es
              | JNum n \<Rightarrow> (k, str n) # kept_entries str es
              | _ \<Rightarrow> kept_entries str es)"
  by (simp add: kept_entries_def map_filter_def header_entry_def split: jsval.splits)

lemma stored_entries_Nil: "stored_entries str [] = []"
  by (simp add: stored_entries_def kept_entries_Nil)

lemma stored_entries_Cons:
  "stored_entries str ((k, v) # es) =
     (if k = ''__proto__'' then stored_entries str es
      else (case v of JStr s \<Rightarrow> (k, s) # stored_entries str es
                    | JNum n \<Rightarrow> (k, str n) # stored_entries str es
                    | _ \<Rightarrow> stored_entries str es))"
  by (auto simp: stored_entries_def kept_entries_Cons split: jsval.splits)

lemma stored_entries_without_proto:
  "''__proto__'' \<notin> fst ` set es \<Longrightarrow> stored_entries str es = kept_entries str es"
proof -
  assume "''__proto__'' \<notin> fst ` set es"
  then have "\<forall>kv\<in>set es. fst kv \<noteq> ''__proto__''" by force
  then have "filter (\<lambda>kv. fst kv \<noteq> ''__proto__'') es = es" by (simp add: filter_id_conv)
  then show ?thesis by (simp add: stored_entries_def)
qed

text \<open>
  On entries with pairwise different keys, none of them in the result so far, the loop
  appends the stored entries in order.
\<close>

lemma header_entries_distinct:
  "distinct (map fst es) \<Longrightarrow> fst ` set es \<inter> fst ` set acc = {} \<Longrightarrow>
   header_entries str es acc = acc @ stored_entries str es"
proof (induction es arbitrary: acc)
  case Nil
  then show ?case by (simp add: stored_entries_Nil)
next
  case (Cons e es)
  obtain k v where e: "e = (k, v)" by (cases e)
  from Cons.prems have fresh: "k \<notin> fst ` set acc" and d: "distinct (map fst es)"
    and knot: "k \<notin> fst ` set es" and disj: "fst ` set es \<inter> fst ` set acc = {}"
    by (auto simp: e)
  show ?case
  proof (cases "k \<noteq> ''__proto__'' \<and> (\<exists>t. header_entry str (k, v) = Some (k, t))")
    case True
    then obtain t where t: "header_entry str (k, v) = Some (k, t)" and k: "k \<noteq> ''__proto__''"
      by blast
    have step: "header_entries str (e # es) acc = header_entries str es (acc @ [(k, t)])"
      using t k fresh by (auto simp: e header_entry_def assign_def update_fresh split: jsval.splits)
    have "fst ` set es \<inter> fst ` set (acc @ [(k, t)]) = {}"
      using disj knot by auto
    from Cons.IH [OF d this] step t k show ?thesis
      by (auto simp: e stored_entries_Cons header_entry_def split: jsval.splits)
  next
    case False
    then have step: "header_entries str (e # es) acc = header_entries str es acc"
      by (auto simp: e header_entry_def assign_def split: jsval.splits)
    from False have "stored_entries str (e # es) = stored_entries str es"
      by (auto simp: e stored_entries_Cons header_entry_def split: jsval.splits)
    with Cons.IH [OF d disj] step show ?thesis by simp
  qed
qed

lemma header_entries_keys_distinct:
  "distinct (map fst acc) \<Longrightarrow> distinct (map fst (header_entries str es acc))"
  by (induction es arbitrary: acc) (auto simp: assign_def distinct_update split: jsval.splits)

lemma parseHeaders_keys_distinct: "distinct (map fst (parseHeaders str parse x))"
  by (auto simp: parseHeaders_def header_entries_keys_distinct split: jsval.splits option.splits)

text \<open>No entry is ever stored under \<^verbatim>\<open>__proto__\<close>.\<close>

lemma header_entries_no_proto:
  "''__proto__'' \<notin> fst ` set acc \<Longrightarrow> ''__proto__'' \<notin> fst ` set (header_entries str es acc)"
proof (induction es arbitrary: acc)
  case Nil
  then show ?case by simp
next
  case (Cons e es)
  obtain k v where e: "e = (k, v)" by (cases e)
  have "''__proto__'' \<notin> fst ` set (assign k t acc)" for t
    using Cons.prems by (auto simp: assign_def dom_update)
  with Cons.prems Cons.IH show ?case
    by (auto simp: e split: jsval.splits)
qed

lemma parseHeaders_no_proto: "''__proto__'' \<notin> fst ` set (parseHeaders str parse x)"
proof -
  have "''__proto__'' \<notin> fst ` set (header_entries str es [])" for es
    by (rule header_entries_no_proto) simp
  then show ?thesis
    by (auto simp only: parseHeaders_def split: jsval.splits option.splits if_splits) auto
qed

lemma kept_entries_strings: "kept_entries str (map (\<lambda>(k, v). (k, JStr v)) h) = h"
  by (induction h) (auto simp: kept_entries_Cons kept_entries_Nil)

lemma keys_as_strings: "map fst (map (\<lambda>(k, v). (k, JStr v)) h) = map fst h"
  by (induction h) auto

lemma kept_entries_empty:
  "kept_entries str es = [] \<longleftrightarrow> (\<forall>kv\<in>set es. \<not> stringOrNumber (snd kv))"
  by (induction es)
     (auto simp: kept_entries_Cons kept_entries_Nil stringOrNumber_def typeof_def split: jsval.splits)




text \<open>
  C9. Normalising is idempotent: the mapping \<open>parseHeaders\<close> returns, given back to it as
  an object of strings, comes out unchanged.
\<close>

theorem parseHeaders_idempotent:
  "parseHeaders str parse (JObj (map (\<lambda>(k, v). (k, JStr v)) (parseHeaders str parse x)))
     = parseHeaders str parse x"
proof -
  let ?h = "parseHeaders str parse x"
  let ?o = "map (\<lambda>(k, v). (k, JStr v)) ?h"
  have d: "distinct (map fst ?o)"
    unfolding keys_as_strings by (rule parseHeaders_keys_distinct)
  have "parseHeaders str parse (JObj ?o) = header_entries str ?o []"
    by (simp add: parseHeaders_def Object_entries_def)
  also have "\<dots> = stored_entries str ?o"
    using header_entries_distinct [OF d, of "[]" str] by simp
  also have "\<dots> = kept_entries str ?o"
  proof (rule stored_entries_without_proto)
    have k: "fst ` set ?o = fst ` set ?h" by (metis keys_as_strings set_map)
    show "''__proto__'' \<notin> fst ` set ?o" unfolding k by (rule parseHeaders_no_proto)
  qed
  also have "\<dots> = ?h" by (rule kept_entries_strings)
  finally show ?thesis .
qed

theorem parseHeaders_idempotent_witness:
  "parseHeaders String_int sample_parse
     (JObj (map (\<lambda>(k, v). (k, JStr v))
        (parseHeaders String_int sample_parse
           (JStr ''{\"X-Id\": 7, \"Accept\": \"text/plain\", \"Bad\": true}''))))
     = [(''X-Id'', ''7''), (''Accept'', ''text/plain'')]"
proof -
  have "parseHeaders String_int sample_parse
          (JStr ''{\"X-Id\": 7, \"Accept\": \"text/plain\", \"Bad\": true}'')
        = [(''X-Id'', ''7''), (''Accept'', ''text/plain'')]"
    by code_simp
  with parseHeaders_idempotent [of String_int sample_parse
         "JStr ''{\"X-Id\": 7, \"Accept\": \"text/plain\", \"Bad\": true}''"]
  show ?thesis by simp
qed

subsection \<open>Arrays\<close>

lemma digit_char_inj: "a < 10 \<Longrightarrow> b < 10 \<Longrightarrow> digit_char a = digit_char b \<Longrightarrow> a = b"
proof -
  assume a: "a < 10" and b: "b < 10" and e: "digit_char a = digit_char b"
  from a have "a \<in> {0,1,2,3,4,5,6,7,8,9}" by auto
  moreover from b have "b \<in> {0,1,2,3,4,5,6,7,8,9}" by auto
  ultimately show ?thesis using e by (auto simp: digit_char_def)
qed

lemma String_nat_nonempty: "String_nat n \<noteq> []"
  by (subst String_nat.simps) simp

lemma String_nat_length: "length (String_nat n) = Suc 0 \<longleftrightarrow> n < 10"
proof (cases "n < 10")
  case True
  then show ?thesis by (subst String_nat.simps) simp
next
  case False
  have "length (String_nat (n div 10)) \<noteq> 0"
    using String_nat_nonempty [of "n div 10"] by simp
  with False show ?thesis by (subst String_nat.simps) simp
qed

lemma String_nat_inj: "String_nat m = String_nat n \<Longrightarrow> m = n"
proof (induction m arbitrary: n rule: String_nat.induct)
  case (1 m)
  show ?case
  proof (cases "m < 10")
    case True
    then have "length (String_nat m) = 1" by (simp add: String_nat_length)
    with 1(2) have n: "n < 10" by (simp add: String_nat_length)
    from 1(2) True n have "digit_char m = digit_char n"
      by (simp add: String_nat.simps [of m] String_nat.simps [of n])
    with True n show ?thesis by (rule digit_char_inj)
  next
    case False
    then have "length (String_nat m) \<noteq> 1" by (simp add: String_nat_length)
    with 1(2) have n: "\<not> n < 10" by (simp add: String_nat_length)
    from 1(2) False n have e: "String_nat (m div 10) = String_nat (n div 10)"
      and d: "digit_char (m mod 10) = digit_char (n mod 10)"
      by (simp_all add: String_nat.simps [of m] String_nat.simps [of n])
    from 1(1) [OF False e] have q: "m div 10 = n div 10" .
    have "m mod 10 = n mod 10" using d by (intro digit_char_inj) auto
    with q show ?thesis by (metis div_mult_mod_eq)
  qed
qed

lemma index_keys_distinct: "distinct (map String_nat [0..<n])"
  by (simp add: distinct_map inj_on_def String_nat_inj)

lemma String_nat_digits: "set (String_nat n) \<subseteq> set ''0123456789''"
proof (induction n rule: String_nat.induct)
  case (1 n)
  have d: "digit_char m \<in> set ''0123456789''" if "m < 10" for m
  proof -
    from that have "m \<in> {0,1,2,3,4,5,6,7,8,9}" by auto
    then show ?thesis by (auto simp: digit_char_def)
  qed
  show ?case
  proof (cases "n < 10")
    case True
    with d [of n] show ?thesis by (subst String_nat.simps) simp
  next
    case False
    with 1 d [of "n mod 10"] show ?thesis by (subst String_nat.simps) simp
  qed
qed

lemma index_key_not_proto: "String_nat n \<noteq> ''__proto__''"
proof
  assume "String_nat n = ''__proto__''"
  then have "CHR ''_'' \<in> set (String_nat n)" by simp
  with String_nat_digits [of n] show False by auto
qed

text \<open>
  C10, as stated, fails on the empty array (and on every array without a string or a
  number): the text \<^verbatim>\<open>[]\<close> parses to an array, the array passes the object check, and
  the result is the empty mapping.
\<close>

theorem parseHeaders_array_counterexample:
  "sample_parse ''[]'' = Some (JArr []) \<and> parseHeaders String_int sample_parse (JStr ''[]'') = []"
  by (simp add: sample_parse_def parseHeaders_def isObject_simps Object_entries_def)

text \<open>
  C10, amended. A string that parses to an array passes the object check, and every element
  that is a string or a number becomes an entry under its decimal index; the result is
  empty exactly when no element is a string or a number.
\<close>

theorem parseHeaders_array:
  assumes "s \<noteq> []" and "parse s = Some (JArr xs)"
  shows "parseHeaders str parse (JStr s) = kept_entries str (zip (map String_nat [0..<length xs]) xs)
       \<and> (parseHeaders str parse (JStr s) = [] \<longleftrightarrow> (\<forall>x\<in>set xs. \<not> stringOrNumber x))"
proof -
  let ?es = "zip (map String_nat [0..<length xs]) xs"
  have keys: "map fst ?es = map String_nat [0..<length xs]" by simp
  have d: "distinct (map fst ?es)" unfolding keys by (rule index_keys_distinct)
  have "parseHeaders str parse (JStr s) = header_entries str ?es []"
    using assms by (simp add: parseHeaders_def isObject_simps Object_entries_def)
  also have "\<dots> = stored_entries str ?es"
    using header_entries_distinct [OF d, of "[]" str] by simp
  also have "\<dots> = kept_entries str ?es"
  proof (rule stored_entries_without_proto)
    have k: "fst ` set ?es = set (map String_nat [0..<length xs])" by (metis keys set_map)
    show "''__proto__'' \<notin> fst ` set ?es"
    proof
      assume "''__proto__'' \<in> fst ` set ?es"
      then have "''__proto__'' \<in> set (map String_nat [0..<length xs])" unfolding k .
      then obtain n where "String_nat n = ''__proto__''" by auto
      with index_key_not_proto show False by blast
    qed
  qed
  finally have r: "parseHeaders str parse (JStr s) = kept_entries str ?es" .
  have "map snd ?es = xs" by simp
  then have "snd ` set ?es = set xs" by (metis set_map)
  then have "(\<forall>kv\<in>set ?es. \<not> stringOrNumber (snd kv)) \<longleftrightarrow> (\<forall>x\<in>set xs. \<not> stringOrNumber x)"
    by (metis (no_types, lifting) image_iff)
  with r show ?thesis by (simp add: kept_entries_empty)
qed

theorem parseHeaders_array_witness:
  "''[1, \"a\"]'' \<noteq> [] \<and> sample_parse ''[1, \"a\"]'' = Some (JArr [JNum 1, JStr ''a'']) \<and>
   parseHeaders String_int sample_parse (JStr ''[1, \"a\"]'') = [(''0'', ''1''), (''1'', ''a'')] \<and>
   stringOrNumber (JNum (1::int))"
proof -
  have b: "sample_parse ''[1, \"a\"]'' = Some (JArr [JNum 1, JStr ''a''])"
    by (simp add: sample_parse_def)
  have c: "String_int 1 = ''1''" "String_nat 0 = ''0''" "String_nat (Suc 0) = ''1''" by code_simp+
  have d: "[0..<2] = [0, 1]" by code_simp
  from parseHeaders_array [of "''[1, \"a\"]''" sample_parse "[JNum 1, JStr ''a'']" String_int] b
  show ?thesis
    by (simp add: kept_entries_Cons kept_entries_Nil c d stringOrNumber_def typeof_def)
qed

section \<open>Validation of the URLs\<close>

lemma trim_empty_iff: "trim s = [] \<longleftrightarrow> list_all isWhitespace s"
proof
  assume "trim s = []"
  then have a: "\<forall>c\<in>set (dropWhile isWhitespace s). isWhitespace c"
    by (simp add: trim_def)
  have "dropWhile isWhitespace s = []"
  proof (rule ccontr)
    assume n: "dropWhile isWhitespace s \<noteq> []"
    then have "\<not> isWhitespace (hd (dropWhile isWhitespace s))" by (rule hd_dropWhile)
    moreover from n have "hd (dropWhile isWhitespace s) \<in> set (dropWhile isWhitespace s)" by simp
    ultimately show False using a by blast
  qed
  then show "list_all isWhitespace s" by (simp add: list_all_iff)
next
  assume "list_all isWhitespace s"
  then have "dropWhile isWhitespace s = []" by (simp add: list_all_iff)
  then show "trim s = []" by (simp only: trim_def rev.simps dropWhile.simps)
qed

lemma blank_iff: "blank u \<longleftrightarrow> (case u of None \<Rightarrow> True | Some s \<Rightarrow> s = [] \<or> trim s = [])"
  by (auto simp: blank_def trim_empty_iff split: option.splits)

text \<open>
  C6. When the download URL or the upload URL is absent, empty or white space only, both
  operations throw the message that names the URL that is required, before any request
  is made, and whatever \<open>throwOnError\<close> is set to.
\<close>

theorem url_required:
  assumes "blank (downloadUrl p) \<or> blank (uploadUrl p)"
  shows "execute e (p\<lparr>throwOnError := b\<rparr>) i =
           (Throw (if blank (downloadUrl p) then ''Download URL is required and cannot be empty''
                   else ''Upload URL is required and cannot be empty''), [])
       \<and> execute_helpers e (p\<lparr>throwOnError := b\<rparr>) i =
           (Throw (if blank (downloadUrl p) then ''Download URL is required and cannot be empty''
                   else ''Upload URL is required and cannot be empty''), [])"
  using assms
  by (auto simp: execute_def execute_helpers_def blank_iff split: option.splits)

theorem url_required_witness:
  "execute (native_env (answers 200) (accepts 201)) (sample_params\<lparr>downloadUrl := Some ''   ''\<rparr>) 0 =
     (Throw ''Download URL is required and cannot be empty'', [])
   \<and> execute_helpers (helpers_env (NoResponse ''unused'') (NoResponse ''unused''))
        (sample_params\<lparr>uploadUrl := None, throwOnError := False\<rparr>) 0 =
     (Throw ''Upload URL is required and cannot be empty'', [])"
proof -
  have a: "blank (downloadUrl (sample_params\<lparr>downloadUrl := Some ''   ''\<rparr>))
           \<or> blank (uploadUrl (sample_params\<lparr>downloadUrl := Some ''   ''\<rparr>))"
    by (simp add: blank_def isWhitespace_def)
  have b: "blank (downloadUrl (sample_params\<lparr>uploadUrl := None\<rparr>))
           \<or> blank (uploadUrl (sample_params\<lparr>uploadUrl := None\<rparr>))"
    by (simp add: blank_def)
  have c: "\<not> blank (downloadUrl (sample_params\<lparr>uploadUrl := None\<rparr>))"
    by (simp add: blank_def sample_params_def isWhitespace_def)
  from url_required [OF a, of "native_env (answers 200) (accepts 201)" True 0]
       url_required [OF b, of "helpers_env (NoResponse ''unused'') (NoResponse ''unused'')" False 0] c a
  show ?thesis by (simp add: sample_params_def blank_def isWhitespace_def)
qed

section \<open>The outer boundary\<close>

lemma trim_Nil: "trim [] = []"
  by (simp add: trim_def)

lemma execute_valid:
  assumes "downloadUrl p = Some dUrl" "trim dUrl \<noteq> []" "uploadUrl p = Some uUrl" "trim uUrl \<noteq> []"
  shows "execute e p i = try_catch p i dUrl uUrl (try_block e p i dUrl uUrl)"
    and "execute_helpers e p i = try_catch p i dUrl uUrl (try_block_helpers e p i dUrl uUrl)"
  using assms by (auto simp: execute_def execute_helpers_def trim_Nil)

lemma includes_enhanced:
  assumes "str_includes m x"
  shows "str_includes (enhancedMessage dUrl uUrl m) x"
proof -
  have "sublist m (''File transfer failed: '' @ m @ (''. Download URL: '' @ dUrl @ '', Upload URL: '' @ uUrl))"
    by (rule sublist_appendI)
  with assms have "sublist x (''File transfer failed: '' @ m @ (''. Download URL: '' @ dUrl @ '', Upload URL: '' @ uUrl))"
    unfolding str_includes_def by (rule sublist_order.order.trans)
  with assms show ?thesis by (simp add: enhancedMessage_def str_includes_def)
qed

text \<open>
  C7. Whatever the \<^verbatim>\<open>try\<close> block throws reaches the one \<^verbatim>\<open>catch\<close> block. Its
  message is kept as it is when it already contains the words \<^verbatim>\<open>Download URL\<close> or
  \<^verbatim>\<open>Upload URL\<close>; otherwise it is wrapped and both URLs are appended. With
  \<open>throwOnError\<close> the message is thrown; without it the operation returns the record with
  \<^verbatim>\<open>success: false\<close>, the message and both URLs. This holds for both operations.
\<close>

theorem fault_at_outer_boundary:
  assumes "downloadUrl p = Some dUrl" "trim dUrl \<noteq> []" "uploadUrl p = Some uUrl" "trim uUrl \<noteq> []"
  shows "(fst (try_block e p i dUrl uUrl) = Throw m \<longrightarrow>
            fst (execute e p i) =
              (if throwOnError p then Throw (enhancedMessage dUrl uUrl m)
               else Return \<lparr>json = [(''error'', JStr (enhancedMessage dUrl uUrl m)),
                                     (''success'', JBool False),
                                     (''downloadUrl'', JStr dUrl),
                                     (''uploadUrl'', JStr uUrl)],
                             pairedItem = i\<rparr>))
       \<and> (fst (try_block_helpers e' p i dUrl uUrl) = Throw m' \<longrightarrow>
            fst (execute_helpers e' p i) =
              (if throwOnError p then Throw (enhancedMessage dUrl uUrl m')
               else Return \<lparr>json = [(''error'', JStr (enhancedMessage dUrl uUrl m')),
                                     (''success'', JBool False),
                                     (''downloadUrl'', JStr dUrl),
                                     (''uploadUrl'', JStr uUrl)],
                             pairedItem = i\<rparr>))
       \<and> enhancedMessage dUrl uUrl m =
            (if str_includes m ''Download URL'' \<or> str_includes m ''Upload URL'' then m
             else ''File transfer failed: '' @ m @ ''. Download URL: '' @ dUrl @ '', Upload URL: '' @ uUrl)"
proof -
  have native: "execute e p i = try_catch p i dUrl uUrl (try_block e p i dUrl uUrl)"
    using assms by (rule execute_valid)
  have helpers: "execute_helpers e' p i = try_catch p i dUrl uUrl (try_block_helpers e' p i dUrl uUrl)"
    using assms by (rule execute_valid)
  have caught: "fst (try_catch p i dUrl uUrl r) = catch_block p i dUrl uUrl x" if "fst r = Throw x" for r x
    using that by (simp add: try_catch_def)
  have boundary: "catch_block p i dUrl uUrl x =
      (if throwOnError p then Throw (enhancedMessage dUrl uUrl x)
       else Return \<lparr>json = [(''error'', JStr (enhancedMessage dUrl uUrl x)),
                             (''success'', JBool False),
                             (''downloadUrl'', JStr dUrl),
                             (''uploadUrl'', JStr uUrl)],
                     pairedItem = i\<rparr>)" for x
    by (simp add: catch_block_def)
  show ?thesis
    unfolding native helpers using caught boundary by (simp add: enhancedMessage_def)
qed

text \<open>
  Network failures are among the faults: a rejected request is thrown by \<^verbatim>\<open>await\<close>.
  The native client's \<^verbatim>\<open>error\<close> event is rejected under the prefix
  \<^verbatim>\<open>Download request failed: \<close>; an error it throws at the call is rejected as it is.
\<close>

lemma download_threw:
  assumes "new_URL e dUrl = Inr u"
    and "native_request e (download_options u (finalDownloadHeaders e p)) = Threw m"
  shows "try_block e p i dUrl uUrl =
           (Throw m, [NativeRequest (download_options u (finalDownloadHeaders e p))])"
  using assms by (simp add: try_block_def)

lemma download_rejected:
  assumes "new_URL e dUrl = Inr u"
    and "native_request e (download_options u (finalDownloadHeaders e p)) = ErrorEvent m"
  shows "try_block e p i dUrl uUrl =
           (Throw (''Download request failed: '' @ m),
            [NativeRequest (download_options u (finalDownloadHeaders e p))])"
  using assms by (simp add: try_block_def)

lemma helpers_download_rejected:
  assumes "request_download e \<lparr>req_method = ''GET'', req_url = dUrl,
              req_headers = finalDownloadHeaders e p, req_body = None\<rparr> = Rejected m"
  shows "try_block_helpers e p i dUrl uUrl =
           (Throw m, [HelpersRequest \<lparr>req_method = ''GET'', req_url = dUrl,
              req_headers = finalDownloadHeaders e p, req_body = None\<rparr>])"
  using assms by (simp add: try_block_helpers_def)

theorem fault_at_outer_boundary_witness:
  "fst (execute (native_env (ErrorEvent ''connect ECONNREFUSED'') (accepts 201))
          (sample_params\<lparr>throwOnError := False\<rparr>) 0) =
     Return \<lparr>json = [(''error'', JStr ''File transfer failed: Download request failed: connect ECONNREFUSED. Download URL: http://src.example.com/file.bin, Upload URL: https://up.example.com/upload''),
                      (''success'', JBool False),
                      (''downloadUrl'', JStr ''http://src.example.com/file.bin''),
                      (''uploadUrl'', JStr ''https://up.example.com/upload'')],
              pairedItem = 0\<rparr>
   \<and> fst (execute_helpers (helpers_env (NoResponse ''socket hang up near Upload URL'') (NoResponse ''unused''))
          (sample_params\<lparr>throwOnError := False\<rparr>) 0) =
     Return \<lparr>json = [(''error'', JStr ''socket hang up near Upload URL''),
                      (''success'', JBool False),
                      (''downloadUrl'', JStr ''http://src.example.com/file.bin''),
                      (''uploadUrl'', JStr ''https://up.example.com/upload'')],
              pairedItem = 0\<rparr>"
proof -
  let ?p = "sample_params\<lparr>throwOnError := False\<rparr>"
  let ?d = "''http://src.example.com/file.bin''"
  let ?u = "''https://up.example.com/upload''"
  let ?e = "native_env (ErrorEvent ''connect ECONNREFUSED'') (accepts 201)"
  let ?h = "helpers_env (NoResponse ''socket hang up near Upload URL'') (NoResponse ''unused'')"
  have v: "downloadUrl ?p = Some ?d" "trim ?d \<noteq> []" "uploadUrl ?p = Some ?u" "trim ?u \<noteq> []"
    by (simp_all add: sample_params_def trim_def isWhitespace_def)
  have a: "fst (try_block ?e ?p 0 ?d ?u) = Throw ''Download request failed: connect ECONNREFUSED''"
    by code_simp
  have b: "fst (try_block_helpers ?h ?p 0 ?d ?u) = Throw ''socket hang up near Upload URL''"
    by code_simp
  have c: "enhancedMessage ?d ?u ''Download request failed: connect ECONNREFUSED'' =
           ''File transfer failed: Download request failed: connect ECONNREFUSED. Download URL: http://src.example.com/file.bin, Upload URL: https://up.example.com/upload''"
    by code_simp
  have d: "enhancedMessage ?d ?u ''socket hang up near Upload URL'' = ''socket hang up near Upload URL''"
    by code_simp
  from fault_at_outer_boundary [OF v, where e = ?e and i = 0 and e' = ?h
         and m = "''Download request failed: connect ECONNREFUSED''"
         and m' = "''socket hang up near Upload URL''"] a b c d
  show ?thesis by (simp add: sample_params_def)
qed

section \<open>A download that answers outside 200..299\<close>

lemma download_status_rejected:
  assumes "new_URL e dUrl = Inr u"
    and "native_request e (download_options u (finalDownloadHeaders e p)) = Responded res"
    and "not_2xx (or_default (res_statusCode res) 0)"
  shows "try_block e p i dUrl uUrl =
           (Throw (download_failed (String_of e (or_default (res_statusCode res) 0)) dUrl),
            [NativeRequest (download_options u (finalDownloadHeaders e p))])"
  using assms by (simp add: try_block_def)

text \<open>
  C1, amended. The native operation rejects the download promise with
  \<^verbatim>\<open>Download failed with HTTP <code> from <url>. ...\<close>, and the rejection reaches the
  \<^verbatim>\<open>catch\<close> block like every other fault. With \<open>throwOnError\<close> the operation throws
  that message as the \<^verbatim>\<open>catch\<close> block enhances it; without it the operation returns a
  record with \<^verbatim>\<open>success: false\<close>, the enhanced message and both URLs. Either way the
  download is the only request issued, and the message contains the download failure text.
\<close>

theorem download_status_failure:
  assumes "downloadUrl p = Some dUrl" "trim dUrl \<noteq> []" "uploadUrl p = Some uUrl" "trim uUrl \<noteq> []"
    and "new_URL e dUrl = Inr u"
    and "native_request e (download_options u (finalDownloadHeaders e p)) = Responded res"
    and "not_2xx (or_default (res_statusCode res) 0)"
  shows "(if throwOnError p
          then fst (execute e p i) =
                 Throw (enhancedMessage dUrl uUrl (download_failed (String_of e (or_default (res_statusCode res) 0)) dUrl))
          else \<exists>d. fst (execute e p i) = Return d
                 \<and> map_of (json d) ''success'' = Some (JBool False)
                 \<and> map_of (json d) ''error'' =
                     Some (JStr (enhancedMessage dUrl uUrl
                                   (download_failed (String_of e (or_default (res_statusCode res) 0)) dUrl)))
                 \<and> map_of (json d) ''downloadUrl'' = Some (JStr dUrl)
                 \<and> map_of (json d) ''uploadUrl'' = Some (JStr uUrl))
       \<and> snd (execute e p i) = [NativeRequest (download_options u (finalDownloadHeaders e p))]
       \<and> str_includes
            (enhancedMessage dUrl uUrl (download_failed (String_of e (or_default (res_statusCode res) 0)) dUrl))
            (''Download failed with HTTP '' @ String_of e (or_default (res_statusCode res) 0) @
             '' from '' @ dUrl)"
proof -
  let ?m = "download_failed (String_of e (or_default (res_statusCode res) 0)) dUrl"
  have t: "try_block e p i dUrl uUrl =
             (Throw ?m, [NativeRequest (download_options u (finalDownloadHeaders e p))])"
    using assms(5-7) by (rule download_status_rejected)
  have x: "execute e p i = try_catch p i dUrl uUrl (try_block e p i dUrl uUrl)"
    using assms(1-4) by (rule execute_valid)
  have "str_includes ?m (''Download failed with HTTP '' @
          String_of e (or_default (res_statusCode res) 0) @ '' from '' @ dUrl)"
    by (simp add: download_failed_def str_includes_def del: append_assoc add: append_assoc [symmetric])
  then have inc: "str_includes (enhancedMessage dUrl uUrl ?m)
      (''Download failed with HTTP '' @ String_of e (or_default (res_statusCode res) 0) @ '' from '' @ dUrl)"
    by (rule includes_enhanced)
  show ?thesis
    using inc by (simp add: x t try_catch_def catch_block_def)
qed

text \<open>
  The helper-based operation downloads with the helper, which rejects such a response:
  the fault reaches the \<^verbatim>\<open>catch\<close> block, and the status check behind the download
  never sees a status outside 200..299.
\<close>

lemma helpers_download_status_failure:
  assumes "downloadUrl p = Some dUrl" "trim dUrl \<noteq> []" "uploadUrl p = Some uUrl" "trim uUrl \<noteq> []"
    and "download_answer e \<lparr>req_method = ''GET'', req_url = dUrl,
              req_headers = finalDownloadHeaders e p, req_body = None\<rparr> = Response c hs b"
    and "not_2xx c"
  shows "execute_helpers e p i =
           (catch_block p i dUrl uUrl
              (status_error e \<lparr>req_method = ''GET'', req_url = dUrl,
                 req_headers = finalDownloadHeaders e p, req_body = None\<rparr>),
            [HelpersRequest \<lparr>req_method = ''GET'', req_url = dUrl,
               req_headers = finalDownloadHeaders e p, req_body = None\<rparr>])"
proof -
  have "execute_helpers e p i = try_catch p i dUrl uUrl (try_block_helpers e p i dUrl uUrl)"
    using assms(1-4) by (rule execute_valid)
  moreover have "request_download e \<lparr>req_method = ''GET'', req_url = dUrl,
              req_headers = finalDownloadHeaders e p, req_body = None\<rparr> =
        Rejected (status_error e \<lparr>req_method = ''GET'', req_url = dUrl,
                 req_headers = finalDownloadHeaders e p, req_body = None\<rparr>)"
    using assms(5,6) by (simp add: request_download_def not_2xx_def)
  ultimately show ?thesis
    by (simp add: try_block_helpers_def try_catch_def Let_def)
qed

text \<open>
  C1, as stated, fails on a download that answers 404: the message thrown does not begin
  with \<^verbatim>\<open>Download failed with HTTP 404\<close> but with the wrapper of the \<^verbatim>\<open>catch\<close>
  block, and the record returned without \<open>throwOnError\<close> has no \<^verbatim>\<open>downloadStatus\<close>.
\<close>

theorem download_status_failure_counterexample:
  "fst (execute (native_env (answers 404) (accepts 201)) sample_params 0) =
     Throw ''File transfer failed: Download failed with HTTP 404 from http://src.example.com/file.bin. Please verify the download URL is accessible and returns a successful response.. Download URL: http://src.example.com/file.bin, Upload URL: https://up.example.com/upload''
   \<and> fst (execute (native_env (answers 404) (accepts 201)) (sample_params\<lparr>throwOnError := False\<rparr>) 0) =
     Return \<lparr>json = [(''error'', JStr ''File transfer failed: Download failed with HTTP 404 from http://src.example.com/file.bin. Please verify the download URL is accessible and returns a successful response.. Download URL: http://src.example.com/file.bin, Upload URL: https://up.example.com/upload''),
                      (''success'', JBool False),
                      (''downloadUrl'', JStr ''http://src.example.com/file.bin''),
                      (''uploadUrl'', JStr ''https://up.example.com/upload'')],
              pairedItem = 0\<rparr>
   \<and> map_of [(''error'', JStr ''File transfer failed: Download failed with HTTP 404 from http://src.example.com/file.bin. Please verify the download URL is accessible and returns a successful response.. Download URL: http://src.example.com/file.bin, Upload URL: https://up.example.com/upload''),
              (''success'', JBool False),
              (''downloadUrl'', JStr ''http://src.example.com/file.bin''),
              (''uploadUrl'', JStr ''https://up.example.com/upload'')] ''downloadStatus'' = (None :: int jsval option)"
  by code_simp

theorem download_status_failure_witness:
  "not_2xx 404
   \<and> snd (execute (native_env (answers 404) (accepts 201)) (sample_params\<lparr>throwOnError := False\<rparr>) 0) =
       [NativeRequest \<lparr>client = ''http'', opt_hostname = ''src.example.com'', opt_port = JNum 80,
                       opt_path = ''/file.bin'', opt_method = ''GET'',
                       opt_headers = [(''Accept'', ''*/*'')]\<rparr>]
   \<and> (\<exists>d. fst (execute (native_env (answers 404) (accepts 201))
                  (sample_params\<lparr>throwOnError := False\<rparr>) 0) = Return d
          \<and> map_of (json d) ''success'' = Some (JBool False)
          \<and> map_of (json d) ''downloadUrl'' = Some (JStr ''http://src.example.com/file.bin'')
          \<and> map_of (json d) ''uploadUrl'' = Some (JStr ''https://up.example.com/upload''))
   \<and> snd (execute (native_env (answers 404) (accepts 201)) sample_params 0) =
       [NativeRequest \<lparr>client = ''http'', opt_hostname = ''src.example.com'', opt_port = JNum 80,
                       opt_path = ''/file.bin'', opt_method = ''GET'',
                       opt_headers = [(''Accept'', ''*/*'')]\<rparr>]
   \<and> fst (execute (native_env (answers 404) (accepts 201)) sample_params 0) =
       Throw (enhancedMessage ''http://src.example.com/file.bin'' ''https://up.example.com/upload''
                (download_failed ''404'' ''http://src.example.com/file.bin''))"
proof -
  let ?e = "native_env (answers 404) (accepts 201)"
  let ?d = "''http://src.example.com/file.bin''"
  let ?u = "''https://up.example.com/upload''"
  let ?res = "\<lparr>res_statusCode = Some 404, res_headers = [(''content-length'', ''500'')],
               res_stream = ''data''\<rparr>"
  let ?url = "\<lparr>protocol = ''http:'', hostname = ''src.example.com'', port = [],
               pathname = ''/file.bin'', search = [], searchParams = []\<rparr>"
  let ?soft = "sample_params\<lparr>throwOnError := False\<rparr>"
  have v1: "downloadUrl sample_params = Some ?d" "downloadUrl ?soft = Some ?d"
   and v3: "uploadUrl sample_params = Some ?u" "uploadUrl ?soft = Some ?u"
   and t: "throwOnError sample_params" "\<not> throwOnError ?soft"
    by (simp_all add: sample_params_def)
  have v2: "trim ?d \<noteq> []" and v4: "trim ?u \<noteq> []"
    by (simp_all add: trim_def isWhitespace_def)
  have n: "new_URL ?e ?d = Inr ?url"
    by (simp add: native_env_def sample_env_def sample_URL_def)
  have r: "native_request ?e (download_options ?url (finalDownloadHeaders ?e p)) = Responded ?res" for p
    by (simp add: native_env_def sample_env_def answers_def)
  have c: "or_default (res_statusCode ?res) 0 = 404" "not_2xx 404"
    by (simp_all add: not_2xx_def or_default_def)
  have c': "not_2xx (or_default (res_statusCode ?res) 0)"
    unfolding c by (rule c)
  have h: "finalDownloadHeaders ?e sample_params = [(''Accept'', ''*/*'')]"
          "finalDownloadHeaders ?e ?soft = [(''Accept'', ''*/*'')]"
    by (simp_all add: finalDownloadHeaders_def native_env_def sample_env_def sample_params_def
        parseHeaders_def sample_parse_def isObject_simps Object_entries_def spread_def)
  have o: "download_options ?url [(''Accept'', ''*/*'')] =
       \<lparr>client = ''http'', opt_hostname = ''src.example.com'', opt_port = JNum 80,
        opt_path = ''/file.bin'', opt_method = ''GET'', opt_headers = [(''Accept'', ''*/*'')]\<rparr>"
    by (simp add: download_options_def)
  note soft = download_status_failure [OF v1(2) v2 v3(2) v4 n r c', where i = 0]
  note hard = download_status_failure [OF v1(1) v2 v3(1) v4 n r c', where i = 0]
  from soft have s1: "snd (execute ?e ?soft 0) = [NativeRequest (download_options ?url [(''Accept'', ''*/*'')])]"
    unfolding h by (elim conjE)
  from soft t(2) have s2: "\<exists>d. fst (execute ?e ?soft 0) = Return d
          \<and> map_of (json d) ''success'' = Some (JBool False)
          \<and> map_of (json d) ''downloadUrl'' = Some (JStr ?d)
          \<and> map_of (json d) ''uploadUrl'' = Some (JStr ?u)"
    by auto
  from hard have h1: "snd (execute ?e sample_params 0) = [NativeRequest (download_options ?url [(''Accept'', ''*/*'')])]"
    unfolding h by (elim conjE)
  have s: "String_of ?e 404 = ''404''"
    by (simp add: String_of_def String_number_def safe_def String_int_def String_nat.simps digit_char_def)
  from hard t(1) have h2: "fst (execute ?e sample_params 0) = Throw (enhancedMessage ?d ?u (download_failed ''404'' ?d))"
    unfolding c s by simp
  from s1 s2 h1 h2 c(2) show ?thesis unfolding o by blast
qed

section \<open>An upload that answers outside 200..299\<close>

text \<open>
  The helper rejects such a response, so the upload's fault reaches the \<^verbatim>\<open>catch\<close>
  block, and the status check behind the upload never finds a status outside 200..299.
\<close>

lemma upload_rejects:
  assumes "upload_answer e options = Response c hs b" and "not_2xx c"
  shows "request_upload e options = Rejected (status_error e options)"
    and "httpRequest e options = Rejected (status_error e options)"
  using assms by (simp_all add: request_upload_def httpRequest_def not_2xx_def)

lemma upload_status_check_unreachable:
  assumes "request_upload e options = Resolved r"
  shows "\<exists>c. up_statusCode r = Some c \<and> \<not> not_2xx c"
  using assms
  by (auto simp: request_upload_def not_2xx_def split: answer.splits if_splits)

lemma upload_status_failure:
  assumes "downloadUrl p = Some dUrl" "trim dUrl \<noteq> []" "uploadUrl p = Some uUrl" "trim uUrl \<noteq> []"
    and "new_URL e dUrl = Inr u"
    and "native_request e (download_options u (finalDownloadHeaders e p)) = Responded res"
    and "\<not> not_2xx (or_default (res_statusCode res) 0)"
    and "upload_answer e \<lparr>req_method = httpMethod p, req_url = uUrl,
           req_headers = effectiveUploadHeaders e p uUrl (res_headers res),
           req_body = Some (res_stream res)\<rparr> = Response c hs b"
    and "not_2xx c"
  shows "fst (execute e p i) =
           catch_block p i dUrl uUrl
             (status_error e \<lparr>req_method = httpMethod p, req_url = uUrl,
                req_headers = effectiveUploadHeaders e p uUrl (res_headers res),
                req_body = Some (res_stream res)\<rparr>)"
proof -
  have "execute e p i = try_catch p i dUrl uUrl (try_block e p i dUrl uUrl)"
    using assms(1-4) by (rule execute_valid)
  moreover have "fst (try_block e p i dUrl uUrl) =
      Throw (status_error e \<lparr>req_method = httpMethod p, req_url = uUrl,
                req_headers = effectiveUploadHeaders e p uUrl (res_headers res),
                req_body = Some (res_stream res)\<rparr>)"
    using assms(5-7) upload_rejects(1) [OF assms(8,9)]
    by (simp add: try_block_def Let_def)
  ultimately show ?thesis by (simp add: try_catch_def)
qed

lemma catch_block_record:
  assumes "\<not> throwOnError p"
  shows "\<exists>d. catch_block p i dUrl uUrl m = Return d
           \<and> map_of (json d) ''success'' = Some (JBool False)
           \<and> map_of (json d) ''uploadStatus'' = None
           \<and> map_of (json d) ''downloadStatus'' = None"
  using assms by (simp add: catch_block_def)

text \<open>
  C3. A download that answers 200 and an upload that answers 401, without \<open>throwOnError\<close>:
  both operations return the record of the \<^verbatim>\<open>catch\<close> block, with
  \<^verbatim>\<open>success: false\<close>, \<^verbatim>\<open>error\<close> and both URLs, and with neither
  \<^verbatim>\<open>uploadStatus\<close> nor \<^verbatim>\<open>downloadStatus\<close>.
\<close>

theorem upload_status_failure_record:
  "fst (execute (native_env (answers 200) (accepts 401)) (sample_params\<lparr>throwOnError := False\<rparr>) 0) =
     Return \<lparr>json = [(''error'', JStr ''File transfer failed: The request failed with an error status. Download URL: http://src.example.com/file.bin, Upload URL: https://up.example.com/upload''),
                      (''success'', JBool False),
                      (''downloadUrl'', JStr ''http://src.example.com/file.bin''),
                      (''uploadUrl'', JStr ''https://up.example.com/upload'')],
              pairedItem = 0\<rparr>
   \<and> fst (execute_helpers (helpers_env (Response 200 [] (Stream ''data'')) (accepts 401))
            (sample_params\<lparr>throwOnError := False\<rparr>) 0) =
     Return \<lparr>json = [(''error'', JStr ''File transfer failed: The request failed with an error status. Download URL: http://src.example.com/file.bin, Upload URL: https://up.example.com/upload''),
                      (''success'', JBool False),
                      (''downloadUrl'', JStr ''http://src.example.com/file.bin''),
                      (''uploadUrl'', JStr ''https://up.example.com/upload'')],
              pairedItem = 0\<rparr>
   \<and> map_of [(''error'', JStr ''File transfer failed: The request failed with an error status. Download URL: http://src.example.com/file.bin, Upload URL: https://up.example.com/upload''),
              (''success'', JBool False),
              (''downloadUrl'', JStr ''http://src.example.com/file.bin''),
              (''uploadUrl'', JStr ''https://up.example.com/upload'')] ''uploadStatus'' = (None :: int jsval option)
   \<and> map_of [(''error'', JStr ''File transfer failed: The request failed with an error status. Download URL: http://src.example.com/file.bin, Upload URL: https://up.example.com/upload''),
              (''success'', JBool False),
              (''downloadUrl'', JStr ''http://src.example.com/file.bin''),
              (''uploadUrl'', JStr ''https://up.example.com/upload'')] ''downloadStatus'' = (None :: int jsval option)"
  by code_simp

section \<open>Evaluating the operations on the sample runtime\<close>

lemmas run_defs =
  execute_def execute_helpers_def try_catch_def try_block_def try_block_helpers_def catch_block_def
  after_upload_def after_httpRequest_def download_options_def effectiveUploadHeaders_def
  detect_content_length_def finalUploadHeaders_def finalDownloadHeaders_def set_content_length_def
  to_length_def truthy_def truthy_at_def spread_def parseHeaders_def isObject_simps Object_entries_def
  extractBearerToken_def trim_def isWhitespace_def not_2xx_def or_default_def
  request_upload_def request_download_def httpRequest_def assign_def
  String_of_def String_number_def safe_def positive_def parseInt_def isDigit_def digit_value_def
  native_env_def helpers_env_def sample_env_def sample_params_def sample_URL_def sample_parse_def
  sample_stringify_def answers_def accepts_def success_result_def upload_soft_failure_def
  String_int_def String_nat.simps digit_char_def Let_def

section \<open>The content length of the upload\<close>

lemma snd_try_catch: "snd (try_catch p i dUrl uUrl r) = snd r"
  by (simp add: try_catch_def split: outcome.splits)

lemma parseInt_Nil: "parseInt beyond [] = NaN"
  by (simp add: parseInt_def)

lemma truthy_of_length: "positive (to_length e cl) \<Longrightarrow> truthy cl"
  by (cases cl) (auto simp: to_length_def truthy_def parseInt_Nil positive_def)

lemma map_of_rev_distinct: "distinct (map fst xs) \<Longrightarrow> map_of (rev xs) = map_of xs"
proof (induction xs)
  case Nil
  then show ?case by simp
next
  case (Cons x xs)
  obtain k v where x: "x = (k, v)" by (cases x)
  from Cons.prems have k: "map_of xs k = None" and d: "distinct (map fst xs)"
    by (auto simp: x map_of_eq_None_iff)
  show ?case
  proof
    fix j
    show "map_of (rev (x # xs)) j = map_of (x # xs) j"
      using Cons.IH [OF d] k by (auto simp: x map_add_def split: option.splits)
  qed
qed

lemma map_of_spread:
  "map_of (spread base obj) k = (case map_of (rev obj) k of None \<Rightarrow> map_of base k | Some v \<Rightarrow> Some v)"
  unfolding spread_def
  by (induction obj arbitrary: base) (auto simp: update_conv' map_add_def split: option.splits)

text \<open>
  Up to the explicit content length, the upload headers hold under
  \<^verbatim>\<open>Content-Length\<close> what the user's headers hold.
\<close>

lemma finalUploadHeaders_shape:
  "\<exists>h1. finalUploadHeaders e p uUrl =
           (if truthy (contentLength p) then set_content_length e (contentLength p) h1 else h1)
        \<and> map_of h1 ''Content-Length'' =
            map_of (parseHeaders (String_of e) (JSON_parse e) (uploadHeadersParam p)) ''Content-Length''"
proof -
  let ?uh = "parseHeaders (String_of e) (JSON_parse e) (uploadHeadersParam p)"
  let ?h0 = "spread [(''Content-Type'', ''application/octet-stream'')] ?uh"
  let ?h1 = "case token (extractBearerToken (new_URL e) uUrl) of
               None \<Rightarrow> ?h0
             | Some t \<Rightarrow>
                 if t \<noteq> [] \<and> \<not> truthy_at ?h0 ''Authorization'' \<and> \<not> truthy_at ?h0 ''authorization''
                 then AList.update ''Authorization'' (''Bearer '' @ t) ?h0
                 else ?h0"
  have d: "map_of (rev ?uh) = map_of ?uh"
    by (rule map_of_rev_distinct) (rule parseHeaders_keys_distinct)
  have "map_of ?h0 ''Content-Length'' = map_of ?uh ''Content-Length''"
    by (simp add: map_of_spread d split: option.splits)
  then have "map_of ?h1 ''Content-Length'' = map_of ?uh ''Content-Length''"
    by (simp add: update_conv' split: option.splits)
  moreover have "finalUploadHeaders e p uUrl =
      (if truthy (contentLength p) then set_content_length e (contentLength p) ?h1 else ?h1)"
    by (simp add: finalUploadHeaders_def Let_def)
  ultimately show ?thesis by blast
qed

lemma content_length_by_cases:
  "map_of (effectiveUploadHeaders e p uUrl rh) ''Content-Length'' = expected_content_length e p rh"
proof -
  obtain h1 where f: "finalUploadHeaders e p uUrl =
           (if truthy (contentLength p) then set_content_length e (contentLength p) h1 else h1)"
    and u: "map_of h1 ''Content-Length'' =
            map_of (parseHeaders (String_of e) (JSON_parse e) (uploadHeadersParam p)) ''Content-Length''"
    using finalUploadHeaders_shape by blast
  show ?thesis
  proof (cases "truthy (contentLength p)")
    case True
    then show ?thesis
      using u
      by (auto simp: effectiveUploadHeaders_def detect_content_length_def f set_content_length_def
            expected_content_length_def truthy_at_def update_conv' Let_def split: option.splits)
  next
    case False
    then show ?thesis
      using u
      by (auto simp: effectiveUploadHeaders_def detect_content_length_def f set_content_length_def
            expected_content_length_def truthy_at_def update_conv' Let_def to_length_def truthy_def
          split: option.splits)
  qed
qed

text \<open>The cases of \<open>expected_content_length\<close>, one by one.\<close>

lemma expected_content_length_explicit:
  assumes "to_length e (contentLength p) = Finite n" and "0 < n"
  shows "expected_content_length e p rh = Some (String_of e n)"
proof -
  have "positive (to_length e (contentLength p))"
    using assms by (simp add: positive_def)
  then have "truthy (contentLength p)" by (rule truthy_of_length)
  then show ?thesis
    using assms by (simp add: expected_content_length_def String_of_def positive_def)
qed

lemma expected_content_length_user:
  assumes "\<not> positive (to_length e (contentLength p))"
    and "map_of (parseHeaders (String_of e) (JSON_parse e) (uploadHeadersParam p))
           ''Content-Length'' = Some v"
    and "v \<noteq> []"
  shows "expected_content_length e p rh = Some v"
  using assms by (simp add: expected_content_length_def)

lemma expected_content_length_detected:
  assumes "\<not> truthy (contentLength p)"
    and "map_of (parseHeaders (String_of e) (JSON_parse e) (uploadHeadersParam p))
           ''Content-Length'' = None"
    and "map_of rh ''content-length'' = Some s"
    and "parseInt (parseInt_beyond e) s = Finite n" and "0 < n"
  shows "expected_content_length e p rh = Some (String_of e n)"
proof -
  have "s \<noteq> []" using assms(4) by (auto simp: parseInt_Nil)
  then show ?thesis
    using assms by (simp add: expected_content_length_def String_of_def positive_def)
qed

lemma upload_issued:
  assumes "new_URL e dUrl = Inr u"
    and "native_request e (download_options u (finalDownloadHeaders e p)) = Responded res"
    and "\<not> not_2xx (or_default (res_statusCode res) 0)"
  shows "snd (try_block e p i dUrl uUrl) =
           [NativeRequest (download_options u (finalDownloadHeaders e p)),
            HelpersRequest \<lparr>req_method = httpMethod p, req_url = uUrl,
                            req_headers = effectiveUploadHeaders e p uUrl (res_headers res),
                            req_body = Some (res_stream res)\<rparr>]"
  using assms by (simp add: try_block_def Let_def split: reply.splits)

text \<open>
  C2, as stated, fails: with \<open>contentLength\<close> 1048576 and upload headers that set
  \<^verbatim>\<open>Content-Length\<close> to 5, the upload request carries 1048576.
\<close>

theorem explicit_content_length_counterexample:
  "parseHeaders String_int sample_parse (JObj [(''Content-Length'', JStr ''5'')])
     = [(''Content-Length'', ''5'')]
   \<and> snd (execute (native_env (answers 200) (accepts 201))
           (sample_params\<lparr>contentLength := Num 1048576,
                          uploadHeadersParam := JObj [(''Content-Length'', JStr ''5'')]\<rparr>) 0) =
     [NativeRequest \<lparr>client = ''http'', opt_hostname = ''src.example.com'', opt_port = JNum 80,
                     opt_path = ''/file.bin'', opt_method = ''GET'',
                     opt_headers = [(''Accept'', ''*/*'')]\<rparr>,
      HelpersRequest \<lparr>req_method = ''POST'', req_url = ''https://up.example.com/upload'',
                      req_headers = [(''Content-Type'', ''application/octet-stream''),
                                     (''Content-Length'', ''1048576'')],
                      req_body = Some ''data''\<rparr>]"
  by (simp add: run_defs)

text \<open>
  C2, amended. The upload request of the native operation carries the headers the code
  has built, and their \<^verbatim>\<open>Content-Length\<close> is, case by case: the explicit
  \<open>contentLength\<close> when it is a positive number (or a string that \<^verbatim>\<open>parseInt\<close> reads
  as one), over whatever the user's upload headers hold; else the user's value when it is
  not empty, which the length detected from the download's response does not replace;
  else, when no \<open>contentLength\<close> is given, the positive length read from the download's
  \<^verbatim>\<open>content-length\<close>; else what the user's headers hold.
\<close>

theorem explicit_content_length_overrides:
  assumes "downloadUrl p = Some dUrl" "trim dUrl \<noteq> []" "uploadUrl p = Some uUrl" "trim uUrl \<noteq> []"
    and "new_URL e dUrl = Inr u"
    and "native_request e (download_options u (finalDownloadHeaders e p)) = Responded res"
    and "\<not> not_2xx (or_default (res_statusCode res) 0)"
  shows "snd (execute e p i) =
           [NativeRequest (download_options u (finalDownloadHeaders e p)),
            HelpersRequest \<lparr>req_method = httpMethod p, req_url = uUrl,
                            req_headers = effectiveUploadHeaders e p uUrl (res_headers res),
                            req_body = Some (res_stream res)\<rparr>]
       \<and> map_of (effectiveUploadHeaders e p uUrl (res_headers res)) ''Content-Length''
           = expected_content_length e p (res_headers res)"
proof -
  have "execute e p i = try_catch p i dUrl uUrl (try_block e p i dUrl uUrl)"
    using assms(1-4) by (rule execute_valid)
  then have "snd (execute e p i) = snd (try_block e p i dUrl uUrl)"
    by (simp add: snd_try_catch)
  with upload_issued [OF assms(5-7)] content_length_by_cases
  show ?thesis by simp
qed

theorem explicit_content_length_overrides_witness:
  "map_of (effectiveUploadHeaders (native_env (answers 200) (accepts 201))
        (sample_params\<lparr>contentLength := Num 1048576,
                       uploadHeadersParam := JObj [(''Content-Length'', JStr ''5'')]\<rparr>)
        ''https://up.example.com/upload'' [(''content-length'', ''500'')]) ''Content-Length''
      = Some ''1048576''
   \<and> map_of (effectiveUploadHeaders (native_env (answers 200) (accepts 201))
        (sample_params\<lparr>uploadHeadersParam := JObj [(''Content-Length'', JStr ''5'')]\<rparr>)
        ''https://up.example.com/upload'' [(''content-length'', ''500'')]) ''Content-Length''
      = Some ''5''
   \<and> map_of (effectiveUploadHeaders (native_env (answers 200) (accepts 201)) sample_params
        ''https://up.example.com/upload'' [(''content-length'', ''500'')]) ''Content-Length''
      = Some ''500''"
proof -
  let ?e = "native_env (answers 200) (accepts 201)"
  let ?p1 = "sample_params\<lparr>contentLength := Num 1048576,
                           uploadHeadersParam := JObj [(''Content-Length'', JStr ''5'')]\<rparr>"
  let ?p2 = "sample_params\<lparr>uploadHeadersParam := JObj [(''Content-Length'', JStr ''5'')]\<rparr>"
  let ?d = "''http://src.example.com/file.bin''"
  let ?u = "''https://up.example.com/upload''"
  let ?res = "\<lparr>res_statusCode = Some 200, res_headers = [(''content-length'', ''500'')],
               res_stream = ''data''\<rparr>"
  let ?url = "\<lparr>protocol = ''http:'', hostname = ''src.example.com'', port = [],
               pathname = ''/file.bin'', search = [], searchParams = []\<rparr>"
  have d: "downloadUrl ?p1 = Some ?d" "downloadUrl ?p2 = Some ?d" "downloadUrl sample_params = Some ?d"
    and u: "uploadUrl ?p1 = Some ?u" "uploadUrl ?p2 = Some ?u" "uploadUrl sample_params = Some ?u"
    by (simp_all add: sample_params_def)
  have v2: "trim ?d \<noteq> []" and v4: "trim ?u \<noteq> []"
    by (simp_all add: trim_def isWhitespace_def)
  have n: "new_URL ?e ?d = Inr ?url"
    by (simp add: native_env_def sample_env_def sample_URL_def)
  have r: "native_request ?e (download_options ?url (finalDownloadHeaders ?e ?p1)) = Responded ?res"
    "native_request ?e (download_options ?url (finalDownloadHeaders ?e ?p2)) = Responded ?res"
    "native_request ?e (download_options ?url (finalDownloadHeaders ?e sample_params)) = Responded ?res"
    by (simp_all add: native_env_def sample_env_def answers_def)
  have c: "\<not> not_2xx (or_default (res_statusCode ?res) 0)"
    by (simp add: not_2xx_def or_default_def)
  have x: "expected_content_length ?e ?p1 (res_headers ?res) = Some ''1048576''"
    "expected_content_length ?e ?p2 (res_headers ?res) = Some ''5''"
    "expected_content_length ?e sample_params (res_headers ?res) = Some ''500''"
    by (simp_all add: expected_content_length_def run_defs)
  from explicit_content_length_overrides [OF d(1) v2 u(1) v4 n r(1) c, where i = 0]
    explicit_content_length_overrides [OF d(2) v2 u(2) v4 n r(2) c, where i = 0]
    explicit_content_length_overrides [OF d(3) v2 u(3) v4 n r(3) c, where i = 0]
  show ?thesis unfolding x by simp
qed

section \<open>A body that is no stream\<close>

lemma sub_right: "sublist x y \<Longrightarrow> sublist x (a @ y)"
  by (metis sublist_append_leftI sublist_order.order.trans)

lemma sub_left: "sublist x y \<Longrightarrow> sublist x (y @ b)"
  by (metis sublist_append_rightI sublist_order.order.trans)

lemma sub_prefix: "sublist (x @ y) (x @ y @ z)"
  by (metis append_assoc sublist_append_rightI)

lemma not_streamable_object_says:
  "str_includes (not_streamable_object e dUrl v) ''not a streamable format''"
  "str_includes (not_streamable_object e dUrl v) (''The response body type is: '' @ typeof v)"
  "str_includes (not_streamable_object e dUrl v)
     (''Response preview: '' @ take 200 (JSON_stringify e v))"
proof -
  have a: "sublist ''not a streamable format'' '' is not a streamable format. ''"
    by code_simp
  show "str_includes (not_streamable_object e dUrl v) ''not a streamable format''"
    unfolding str_includes_def not_streamable_object_def Let_def
    by (rule sub_right, rule sub_right, rule sub_left, rule a)
  show "str_includes (not_streamable_object e dUrl v) (''The response body type is: '' @ typeof v)"
    unfolding str_includes_def not_streamable_object_def Let_def
    by (rule sub_right, rule sub_right, rule sub_right, rule sub_prefix)
  show "str_includes (not_streamable_object e dUrl v)
     (''Response preview: '' @ take 200 (JSON_stringify e v))"
    unfolding str_includes_def not_streamable_object_def Let_def
    by (rule sub_right, rule sub_right, rule sub_right, rule sub_right, rule sub_right,
        rule sub_right, rule sub_right, rule sub_prefix)
qed

lemma body_not_streamable:
  assumes "request_download e \<lparr>req_method = ''GET'', req_url = dUrl,
              req_headers = finalDownloadHeaders e p, req_body = None\<rparr> = Resolved r"
    and "case dl_statusCode r of None \<Rightarrow> True | Some c \<Rightarrow> \<not> not_2xx c"
    and "dl_body r = Plain v" and "isObject v"
  shows "try_block_helpers e p i dUrl uUrl =
           (Throw (not_streamable_object e dUrl v),
            [HelpersRequest \<lparr>req_method = ''GET'', req_url = dUrl,
               req_headers = finalDownloadHeaders e p, req_body = None\<rparr>])"
  using assms by (auto simp: try_block_helpers_def to_stream_def split: option.splits)

text \<open>
  C4, amended. In the helper-based operation, a download that answers 2xx (or no status)
  with an object or an array for a body throws inside the \<^verbatim>\<open>try\<close> block, so the
  \<^verbatim>\<open>catch\<close> block decides: with \<open>throwOnError\<close> the operation throws, without it
  the operation returns the record with \<^verbatim>\<open>success: false\<close>. Either way the message
  contains \<^verbatim>\<open>not a streamable format\<close>, the body's type and the preview of at most
  200 characters, and no upload is attempted.
\<close>

theorem unstreamable_body:
  assumes "downloadUrl p = Some dUrl" "trim dUrl \<noteq> []" "uploadUrl p = Some uUrl" "trim uUrl \<noteq> []"
    and "request_download e \<lparr>req_method = ''GET'', req_url = dUrl,
              req_headers = finalDownloadHeaders e p, req_body = None\<rparr> = Resolved r"
    and "case dl_statusCode r of None \<Rightarrow> True | Some c \<Rightarrow> \<not> not_2xx c"
    and "dl_body r = Plain v" and "isObject v"
  shows "execute_helpers e p i =
           (if throwOnError p
            then Throw (enhancedMessage dUrl uUrl (not_streamable_object e dUrl v))
            else Return \<lparr>json = [(''error'', JStr (enhancedMessage dUrl uUrl
                                                     (not_streamable_object e dUrl v))),
                                  (''success'', JBool False),
                                  (''downloadUrl'', JStr dUrl),
                                  (''uploadUrl'', JStr uUrl)],
                          pairedItem = i\<rparr>,
            [HelpersRequest \<lparr>req_method = ''GET'', req_url = dUrl,
               req_headers = finalDownloadHeaders e p, req_body = None\<rparr>])
       \<and> str_includes (enhancedMessage dUrl uUrl (not_streamable_object e dUrl v))
            ''not a streamable format''
       \<and> str_includes (enhancedMessage dUrl uUrl (not_streamable_object e dUrl v))
            ''The response body type is: object''
       \<and> str_includes (enhancedMessage dUrl uUrl (not_streamable_object e dUrl v))
            (''Response preview: '' @ take 200 (JSON_stringify e v))"
proof -
  have x: "execute_helpers e p i = try_catch p i dUrl uUrl (try_block_helpers e p i dUrl uUrl)"
    using assms(1-4) by (rule execute_valid)
  have t: "try_block_helpers e p i dUrl uUrl =
           (Throw (not_streamable_object e dUrl v),
            [HelpersRequest \<lparr>req_method = ''GET'', req_url = dUrl,
               req_headers = finalDownloadHeaders e p, req_body = None\<rparr>])"
    using assms(5-8) by (rule body_not_streamable)
  have ty: "typeof v = ''object''" using assms(8) by (simp add: isObject_def)
  have i1: "str_includes (enhancedMessage dUrl uUrl (not_streamable_object e dUrl v))
            ''not a streamable format''"
    by (intro includes_enhanced not_streamable_object_says)
  have "str_includes (enhancedMessage dUrl uUrl (not_streamable_object e dUrl v))
            (''The response body type is: '' @ typeof v)"
    by (intro includes_enhanced not_streamable_object_says)
  then have i2: "str_includes (enhancedMessage dUrl uUrl (not_streamable_object e dUrl v))
            ''The response body type is: object''"
    unfolding ty by simp
  have i3: "str_includes (enhancedMessage dUrl uUrl (not_streamable_object e dUrl v))
            (''Response preview: '' @ take 200 (JSON_stringify e v))"
    by (intro includes_enhanced not_streamable_object_says)
  have "execute_helpers e p i =
           (if throwOnError p
            then Throw (enhancedMessage dUrl uUrl (not_streamable_object e dUrl v))
            else Return \<lparr>json = [(''error'', JStr (enhancedMessage dUrl uUrl
                                                     (not_streamable_object e dUrl v))),
                                  (''success'', JBool False),
                                  (''downloadUrl'', JStr dUrl),
                                  (''uploadUrl'', JStr uUrl)],
                          pairedItem = i\<rparr>,
            [HelpersRequest \<lparr>req_method = ''GET'', req_url = dUrl,
               req_headers = finalDownloadHeaders e p, req_body = None\<rparr>])"
    by (simp add: x t try_catch_def catch_block_def)
  with i1 i2 i3 show ?thesis by blast
qed

text \<open>
  C4, as stated, fails without \<open>throwOnError\<close>: the operation returns a record and
  throws nothing.
\<close>

theorem unstreamable_body_counterexample:
  "\<not> throwOnError (sample_params\<lparr>throwOnError := False\<rparr>)
   \<and> execute_helpers (helpers_env parsed_body (NoResponse ''unused''))
        (sample_params\<lparr>throwOnError := False\<rparr>) 0 =
     (Return \<lparr>json = [(''error'', JStr ''File transfer failed: Download response from http://src.example.com/file.bin is not a streamable format. The response body type is: object. Response body keys: error. Response preview: {\"error\":\"not found\"}. This usually means the server returned JSON/text instead of binary data. Please ensure the download URL returns a binary stream. You may need to add headers like 'Accept: */*' to prevent automatic parsing.. Download URL: http://src.example.com/file.bin, Upload URL: https://up.example.com/upload''),
                       (''success'', JBool False),
                       (''downloadUrl'', JStr ''http://src.example.com/file.bin''),
                       (''uploadUrl'', JStr ''https://up.example.com/upload'')],
               pairedItem = 0\<rparr>,
      [HelpersRequest \<lparr>req_method = ''GET'', req_url = ''http://src.example.com/file.bin'',
                       req_headers = [(''Accept'', ''*/*'')], req_body = None\<rparr>])"
  by code_simp

theorem unstreamable_body_witness:
  "isObject (JObj [(''error'', JStr ''not found'')] :: int jsval)
   \<and> execute_helpers (helpers_env parsed_body (NoResponse ''unused'')) sample_params 0 =
       (Throw (enhancedMessage ''http://src.example.com/file.bin'' ''https://up.example.com/upload''
                 (not_streamable_object (helpers_env parsed_body (NoResponse ''unused''))
                    ''http://src.example.com/file.bin'' (JObj [(''error'', JStr ''not found'')]))),
        [HelpersRequest \<lparr>req_method = ''GET'', req_url = ''http://src.example.com/file.bin'',
                         req_headers = [(''Accept'', ''*/*'')], req_body = None\<rparr>])
   \<and> str_includes
        (enhancedMessage ''http://src.example.com/file.bin'' ''https://up.example.com/upload''
           (not_streamable_object (helpers_env parsed_body (NoResponse ''unused''))
              ''http://src.example.com/file.bin'' (JObj [(''error'', JStr ''not found'')])))
        ''Response preview: {\"error\":\"not found\"}''"
proof -
  let ?e = "helpers_env parsed_body (NoResponse ''unused'')"
  let ?d = "''http://src.example.com/file.bin''"
  let ?u = "''https://up.example.com/upload''"
  let ?v = "JObj [(''error'', JStr ''not found'')] :: int jsval"
  let ?r = "\<lparr>dl_statusCode = Some 200, dl_headers = Some [], dl_body = Plain ?v\<rparr>"
  have v1: "downloadUrl sample_params = Some ?d" and v3: "uploadUrl sample_params = Some ?u"
   and t: "throwOnError sample_params"
    by (simp_all add: sample_params_def)
  have v2: "trim ?d \<noteq> []" and v4: "trim ?u \<noteq> []"
    by (simp_all add: trim_def isWhitespace_def)
  have h: "finalDownloadHeaders ?e sample_params = [(''Accept'', ''*/*'')]"
    by (simp add: finalDownloadHeaders_def helpers_env_def sample_env_def sample_params_def
        parseHeaders_def sample_parse_def isObject_simps Object_entries_def spread_def)
  have r: "request_download ?e \<lparr>req_method = ''GET'', req_url = ?d,
              req_headers = finalDownloadHeaders ?e sample_params, req_body = None\<rparr> = Resolved ?r"
    by (simp add: request_download_def helpers_env_def sample_env_def parsed_body_def)
  have c: "case dl_statusCode ?r of None \<Rightarrow> True | Some c \<Rightarrow> \<not> not_2xx c"
    by (simp add: not_2xx_def)
  have b: "dl_body ?r = Plain ?v" by simp
  have o: "isObject ?v" by (rule isObject_simps)
  have s: "take 200 (JSON_stringify ?e ?v) = ''{\"error\":\"not found\"}''"
    by (simp add: helpers_env_def sample_env_def sample_stringify_def)
  from unstreamable_body [OF v1 v2 v3 v4 r c b o, where i = 0] t o
  show ?thesis unfolding h s by simp
qed

section \<open>The bearer token\<close>

lemma map_of_set_content_length:
  "k \<noteq> ''Content-Length'' \<Longrightarrow> map_of (set_content_length e cl h) k = map_of h k"
  by (auto simp: set_content_length_def update_conv' split: option.splits)

lemma map_of_detect_content_length:
  "k \<noteq> ''Content-Length'' \<Longrightarrow> map_of (detect_content_length e cl rh h) k = map_of h k"
  by (auto simp: detect_content_length_def map_of_set_content_length Let_def split: option.splits)

lemma extractBearerToken_query:
  "mk uUrl = Inr u \<Longrightarrow> map_of (searchParams u) ''bearer'' = Some X \<Longrightarrow> X \<noteq> [] \<Longrightarrow>
   token (extractBearerToken mk uUrl) = Some X"
  by (simp add: extractBearerToken_def)

text \<open>
  With a token in the query and neither \<^verbatim>\<open>Authorization\<close> nor
  \<^verbatim>\<open>authorization\<close> among the user's headers the token is injected; a non-empty
  header under one of these two names is kept and nothing is injected.
\<close>

lemma bearer_injected:
  assumes "new_URL e uUrl = Inr u" "map_of (searchParams u) ''bearer'' = Some X" "X \<noteq> []"
    and "map_of (parseHeaders (String_of e) (JSON_parse e) (uploadHeadersParam p)) ''Authorization'' = None"
    and "map_of (parseHeaders (String_of e) (JSON_parse e) (uploadHeadersParam p)) ''authorization'' = None"
  shows "map_of (effectiveUploadHeaders e p uUrl rh) ''Authorization'' = Some (''Bearer '' @ X)"
proof -
  let ?uh = "parseHeaders (String_of e) (JSON_parse e) (uploadHeadersParam p)"
  let ?h0 = "spread [(''Content-Type'', ''application/octet-stream'')] ?uh"
  have d: "map_of (rev ?uh) = map_of ?uh"
    by (rule map_of_rev_distinct) (rule parseHeaders_keys_distinct)
  have n: "\<not> truthy_at ?h0 ''Authorization''" "\<not> truthy_at ?h0 ''authorization''"
    using assms(4,5) by (simp_all add: truthy_at_def map_of_spread d)
  have t: "token (extractBearerToken (new_URL e) uUrl) = Some X"
    using assms(1-3) by (rule extractBearerToken_query)
  have "map_of (finalUploadHeaders e p uUrl) ''Authorization'' = Some (''Bearer '' @ X)"
    using n t assms(3)
    by (simp add: finalUploadHeaders_def Let_def map_of_set_content_length update_conv')
  then show ?thesis
    by (simp add: effectiveUploadHeaders_def map_of_detect_content_length)
qed

lemma authorization_kept:
  assumes "map_of (parseHeaders (String_of e) (JSON_parse e) (uploadHeadersParam p)) k = Some v"
    and "v \<noteq> []" and "k = ''Authorization'' \<or> k = ''authorization''"
  shows "map_of (effectiveUploadHeaders e p uUrl rh) ''Authorization'' =
         map_of (parseHeaders (String_of e) (JSON_parse e) (uploadHeadersParam p)) ''Authorization''"
proof -
  let ?uh = "parseHeaders (String_of e) (JSON_parse e) (uploadHeadersParam p)"
  let ?h0 = "spread [(''Content-Type'', ''application/octet-stream'')] ?uh"
  have d: "map_of (rev ?uh) = map_of ?uh"
    by (rule map_of_rev_distinct) (rule parseHeaders_keys_distinct)
  have n: "truthy_at ?h0 ''Authorization'' \<or> truthy_at ?h0 ''authorization''"
    using assms by (auto simp: truthy_at_def map_of_spread d)
  have a: "map_of ?h0 ''Authorization'' = map_of ?uh ''Authorization''"
    by (simp add: map_of_spread d split: option.splits)
  have "map_of (finalUploadHeaders e p uUrl) ''Authorization'' = map_of ?h0 ''Authorization''"
    using n
    by (auto simp: finalUploadHeaders_def Let_def map_of_set_content_length split: option.splits)
  with a show ?thesis
    by (simp add: effectiveUploadHeaders_def map_of_detect_content_length)
qed

text \<open>
  C5. The test reads the two spellings \<^verbatim>\<open>Authorization\<close> and
  \<^verbatim>\<open>authorization\<close> only. With the user's header spelled \<^verbatim>\<open>AUTHORIZATION\<close> and
  \<^verbatim>\<open>?bearer=tok\<close> in the upload URL, the upload request carries the user's header and
  an injected \<^verbatim>\<open>Authorization: Bearer tok\<close> beside it.
\<close>

theorem bearer_beside_uppercase_authorization:
  "parseHeaders String_int sample_parse (JObj [(''AUTHORIZATION'', JStr ''Basic abc'')])
     = [(''AUTHORIZATION'', ''Basic abc'')]
   \<and> token (extractBearerToken sample_URL ''https://up.example.com/upload?bearer=tok'') = Some ''tok''
   \<and> snd (execute (native_env (answers 200) (accepts 201))
           (sample_params\<lparr>uploadUrl := Some ''https://up.example.com/upload?bearer=tok'',
                          uploadHeadersParam := JObj [(''AUTHORIZATION'', JStr ''Basic abc'')]\<rparr>) 0) =
     [NativeRequest \<lparr>client = ''http'', opt_hostname = ''src.example.com'', opt_port = JNum 80,
                     opt_path = ''/file.bin'', opt_method = ''GET'',
                     opt_headers = [(''Accept'', ''*/*'')]\<rparr>,
      HelpersRequest \<lparr>req_method = ''POST'',
                      req_url = ''https://up.example.com/upload?bearer=tok'',
                      req_headers = [(''Content-Type'', ''application/octet-stream''),
                                     (''AUTHORIZATION'', ''Basic abc''),
                                     (''Authorization'', ''Bearer tok''),
                                     (''Content-Length'', ''500'')],
                      req_body = Some ''data''\<rparr>]"
  by code_simp

end
